theory Spec2Isabelle
  imports Complex_Main "HOL-Library.Sublist" "HOL-Library.Log_Nat"
begin

section \<open>StudyFlow: gamification utilities, task edit modal and API call sites\<close>

text \<open>
  The counters, levels and XP totals of the player statistics are modelled as \<open>int\<close>:
  a \<open>PlayerStats\<close> value is what the module itself writes and reads back. The numbers
  that come from outside with a task are treated as the doubles they are where
  \<^verbatim>\<open>calculateTaskXP\<close> computes with them. Strings are \<open>string\<close>; the emoji that prefix the level titles are left out of
  the title strings, which no function of the module reads.
\<close>

subsection \<open>The level table\<close>

record LevelEntry =
  level :: int
  xp :: int
  title :: string
  color :: string

definition LEVELS :: "LevelEntry list" where
  "LEVELS =
    [ \<lparr>level = 1, xp = 0, title = ''Beginner'', color = ''#94A3B8''\<rparr>,
      \<lparr>level = 2, xp = 100, title = ''Student'', color = ''#60A5FA''\<rparr>,
      \<lparr>level = 3, xp = 250, title = ''Focused'', color = ''#3B82F6''\<rparr>,
      \<lparr>level = 4, xp = 500, title = ''Productive'', color = ''#8B5CF6''\<rparr>,
      \<lparr>level = 5, xp = 1000, title = ''On Fire'', color = ''#F59E0B''\<rparr>,
      \<lparr>level = 6, xp = 2000, title = ''Achiever'', color = ''#10B981''\<rparr>,
      \<lparr>level = 7, xp = 3500, title = ''Pro'', color = ''#06B6D4''\<rparr>,
      \<lparr>level = 8, xp = 5500, title = ''Elite'', color = ''#EC4899''\<rparr>,
      \<lparr>level = 9, xp = 8000, title = ''Master'', color = ''#F43F5E''\<rparr>,
      \<lparr>level = 10, xp = 12000, title = ''Legend'', color = ''#F59E0B''\<rparr> ]"

text \<open>
  \<^verbatim>\<open>for (let i = LEVELS.length - 1; i >= 0; i--) { if (xp >= LEVELS[i].xp) return LEVELS[i].level; } return 1;\<close>
  The argument \<open>Suc i\<close> of the loop function stands for the loop variable \<open>i\<close>; at \<open>0\<close>
  the loop has run past index 0 and the function returns 1.
\<close>

fun calculateLevel_loop :: "nat \<Rightarrow> int \<Rightarrow> int" where
  "calculateLevel_loop 0 x = 1"
| "calculateLevel_loop (Suc i) x =
     (if x \<ge> xp (LEVELS ! i) then level (LEVELS ! i) else calculateLevel_loop i x)"

definition calculateLevel :: "int \<Rightarrow> int" where
  "calculateLevel x = calculateLevel_loop (length LEVELS) x"

text \<open>
  \<^verbatim>\<open>LEVELS.find(l => l.level === currentLevel + 1)\<close>, with the last entry's threshold when
  there is no such entry, and \<^verbatim>\<open>LEVELS.find(l => l.level === currentLevel)\<close>, with 0.
\<close>

definition getXPForNextLevel :: "int \<Rightarrow> int" where
  "getXPForNextLevel currentLevel =
     (case find (\<lambda>l. level l = currentLevel + 1) LEVELS of
        Some nextLevel \<Rightarrow> xp nextLevel
      | None \<Rightarrow> xp (LEVELS ! (length LEVELS - 1)))"

definition getXPForCurrentLevel :: "int \<Rightarrow> int" where
  "getXPForCurrentLevel currentLevel =
     (case find (\<lambda>l. level l = currentLevel) LEVELS of
        Some l \<Rightarrow> xp l
      | None \<Rightarrow> 0)"

subsection \<open>Badges and player statistics\<close>

record Badge =
  badge_id :: string
  badge_name :: string
  badge_description :: string
  icon :: string
  badge_color :: string
  requirement :: string
  unlocked :: bool

definition BADGES :: "Badge list" where
  "BADGES =
    [ \<lparr>badge_id = ''first_task'', badge_name = ''First Steps'',
       badge_description = ''Complete your first task'', icon = ''footsteps'',
       badge_color = ''#60A5FA'', requirement = ''Complete 1 task'', unlocked = False\<rparr>,
      \<lparr>badge_id = ''week_warrior'', badge_name = ''Week Warrior'',
       badge_description = ''Maintain a 7-day streak'', icon = ''flame'',
       badge_color = ''#F59E0B'', requirement = ''7 day streak'', unlocked = False\<rparr>,
      \<lparr>badge_id = ''early_bird'', badge_name = ''Early Bird'',
       badge_description = ''Complete a task before 8 AM'', icon = ''sunny'',
       badge_color = ''#FBBF24'', requirement = ''Task completed before 8 AM'', unlocked = False\<rparr>,
      \<lparr>badge_id = ''night_owl'', badge_name = ''Night Owl'',
       badge_description = ''Complete a task after 10 PM'', icon = ''moon'',
       badge_color = ''#8B5CF6'', requirement = ''Task completed after 10 PM'', unlocked = False\<rparr>,
      \<lparr>badge_id = ''speedster'', badge_name = ''Speedster'',
       badge_description = ''Complete 5 tasks in one day'', icon = ''flash'',
       badge_color = ''#3B82F6'', requirement = ''5 tasks in one day'', unlocked = False\<rparr>,
      \<lparr>badge_id = ''perfectionist'', badge_name = ''Perfectionist'',
       badge_description = ''Complete 10 tasks without missing a deadline'',
       icon = ''checkmark-done'', badge_color = ''#10B981'', requirement = ''10 tasks on time'',
       unlocked = False\<rparr>,
      \<lparr>badge_id = ''pomodoro_master'', badge_name = ''Pomodoro Master'',
       badge_description = ''Complete 25 Pomodoro sessions'', icon = ''timer'',
       badge_color = ''#EF4444'', requirement = ''25 Pomodoro sessions'', unlocked = False\<rparr>,
      \<lparr>badge_id = ''study_marathon'', badge_name = ''Study Marathon'',
       badge_description = ''Log 40+ hours of study time'', icon = ''school'',
       badge_color = ''#10B981'', requirement = ''40+ study hours'', unlocked = False\<rparr> ]"

record PlayerStats =
  totalXP :: int
  currentLevel :: int
  tasksCompleted :: int
  currentStreak :: int
  longestStreak :: int
  pomodoroSessions :: int
  totalStudyHours :: int
  badges :: "string list"
  tasksCompletedOnTime :: int
  tasksCompletedToday :: int
  lastTaskDate :: "string option"

definition getDefaultStats :: PlayerStats where
  "getDefaultStats =
     \<lparr>totalXP = 0, currentLevel = 1, tasksCompleted = 0, currentStreak = 0, longestStreak = 0,
      pomodoroSessions = 0, totalStudyHours = 0, badges = [], tasksCompletedOnTime = 0,
      tasksCompletedToday = 0, lastTaskDate = None\<rparr>"

subsection \<open>XP of a completed task\<close>

text \<open>
  The argument of \<^verbatim>\<open>calculateTaskXP\<close> is any object with a \<^verbatim>\<open>priority\<close> string and an
  optional \<^verbatim>\<open>estimated_duration\<close>; \<^verbatim>\<open>completeTask\<close> passes one that also has an optional
  \<^verbatim>\<open>due_date\<close>. \<^verbatim>\<open>if (task.estimated_duration)\<close> is false for \<^verbatim>\<open>undefined\<close> and for 0.

  The estimated duration comes with the task and nothing bounds it, so the doubling and
  the additions of \<^verbatim>\<open>calculateTaskXP\<close> are modelled as the double-precision operations
  that they are. The numbers are integer-valued doubles, written as integers, with
  \<open>2 ^ 1024\<close> and \<open>- (2 ^ 1024)\<close> standing for \<^verbatim>\<open>Infinity\<close> and \<^verbatim>\<open>-Infinity\<close>.
  \<open>double_round n\<close> is the double that an operation with the exact result \<open>n\<close> returns:
  \<open>n\<close> itself up to magnitude \<open>2 ^ 53\<close>, beyond that \<open>n\<close> rounded to 53 significant bits
  (to the nearest multiple of \<open>2 ^ (bitlen \<bar>n\<bar> - 53)\<close>, a tie to the multiple with the even
  quotient), and an infinity when the rounded magnitude reaches \<open>2 ^ 1024\<close>. A duration
  that is \<^verbatim>\<open>NaN\<close> takes the path of an absent one; durations with a fractional part are not
  part of the model.
\<close>

definition round_half_even :: "int \<Rightarrow> int \<Rightarrow> int" where
  "round_half_even a u =
     (let q = a div u; r = a mod u
      in if 2 * r < u then q else if u < 2 * r then q + 1 else if even q then q else q + 1)"

definition double_round :: "int \<Rightarrow> int" where
  "double_round n =
     (if \<bar>n\<bar> \<le> 2 ^ 53 then n
      else sgn n * min (2 ^ 1024)
             (round_half_even \<bar>n\<bar> (2 ^ nat (bitlen \<bar>n\<bar> - 53)) * 2 ^ nat (bitlen \<bar>n\<bar> - 53)))"

record TaskXPInput =
  priority :: string
  estimated_duration :: "int option"

record CompletedTask = TaskXPInput +
  due_date :: "string option"

definition priorityBonus :: "string \<Rightarrow> int" where
  "priorityBonus p =
     (if p = ''high'' then 15 else if p = ''medium'' then 10 else if p = ''low'' then 5 else 0)"

definition calculateTaskXP :: "'a TaskXPInput_scheme \<Rightarrow> int" where
  "calculateTaskXP task =
     (let baseXP = 10;
          baseXP = double_round (baseXP + priorityBonus (priority task));
          baseXP = (case estimated_duration task of
                      Some d \<Rightarrow>
                        if d \<noteq> 0 then double_round (baseXP + min (double_round (d * 2)) 30)
                        else baseXP
                    | None \<Rightarrow> baseXP)
      in baseXP)"

subsection \<open>Badge unlocking\<close>

text \<open>
  \<^verbatim>\<open>checkForNewBadges\<close> walks \<^verbatim>\<open>BADGES\<close> in order. For a badge not yet in \<^verbatim>\<open>stats.badges\<close>
  it reads the wall-clock hour (\<^verbatim>\<open>new Date().getHours()\<close>) and evaluates the predicate of
  the badge's id. The clock is an input of the model: \<open>hourAt b\<close> is the hour read while
  the badge with id \<open>b\<close> is processed.
\<close>

definition badgeUnlock :: "int \<Rightarrow> PlayerStats \<Rightarrow> string \<Rightarrow> bool" where
  "badgeUnlock hour stats b =
     (if b = ''first_task'' then tasksCompleted stats \<ge> 1
      else if b = ''week_warrior'' then currentStreak stats \<ge> 7
      else if b = ''early_bird'' then hour < 8 \<and> tasksCompletedToday stats > 0
      else if b = ''night_owl'' then hour \<ge> 22 \<and> tasksCompletedToday stats > 0
      else if b = ''speedster'' then tasksCompletedToday stats \<ge> 5
      else if b = ''perfectionist'' then tasksCompletedOnTime stats \<ge> 10
      else if b = ''pomodoro_master'' then pomodoroSessions stats \<ge> 25
      else if b = ''study_marathon'' then totalStudyHours stats \<ge> 40
      else False)"

primrec checkForNewBadges_forEach ::
  "(string \<Rightarrow> int) \<Rightarrow> PlayerStats \<Rightarrow> Badge list \<Rightarrow> Badge list \<Rightarrow> Badge list" where
  "checkForNewBadges_forEach hourAt stats [] newBadges = newBadges"
| "checkForNewBadges_forEach hourAt stats (badge # rest) newBadges =
     checkForNewBadges_forEach hourAt stats rest
       (if badge_id badge \<in> set (badges stats) then newBadges
        else if badgeUnlock (hourAt (badge_id badge)) stats (badge_id badge)
             then newBadges @ [badge]
             else newBadges)"

definition checkForNewBadges :: "(string \<Rightarrow> int) \<Rightarrow> PlayerStats \<Rightarrow> Badge list" where
  "checkForNewBadges hourAt stats = checkForNewBadges_forEach hourAt stats BADGES []"

subsection \<open>Progress to the next level\<close>

text \<open>
  \<^verbatim>\<open>(stats.totalXP - currentLevelXP) / (nextLevelXP - currentLevelXP)\<close> is a division of
  JavaScript numbers: a zero divisor gives \<^verbatim>\<open>Infinity\<close>, \<^verbatim>\<open>-Infinity\<close> or \<^verbatim>\<open>NaN\<close>, and
  \<^verbatim>\<open>Math.max\<close> and \<^verbatim>\<open>Math.min\<close> return \<^verbatim>\<open>NaN\<close> when an argument is \<^verbatim>\<open>NaN\<close>. A finite
  quotient is kept exact (a rational); the rounding of the floating-point division is not
  modelled. The stats are those that \<^verbatim>\<open>loadPlayerStats\<close> returned, which the progress bar,
  the one caller, passes on.
\<close>

datatype jsnum = Finite rat | PosInf | NegInf | NaN

definition js_div :: "int \<Rightarrow> int \<Rightarrow> jsnum" where
  "js_div a b =
     (if b \<noteq> 0 then Finite (of_int a / of_int b)
      else if a > 0 then PosInf else if a < 0 then NegInf else NaN)"

fun Math_max :: "jsnum \<Rightarrow> jsnum \<Rightarrow> jsnum" where
  "Math_max NaN _ = NaN"
| "Math_max _ NaN = NaN"
| "Math_max PosInf _ = PosInf"
| "Math_max _ PosInf = PosInf"
| "Math_max NegInf y = y"
| "Math_max x NegInf = x"
| "Math_max (Finite a) (Finite b) = Finite (max a b)"

fun Math_min :: "jsnum \<Rightarrow> jsnum \<Rightarrow> jsnum" where
  "Math_min NaN _ = NaN"
| "Math_min _ NaN = NaN"
| "Math_min NegInf _ = NegInf"
| "Math_min _ NegInf = NegInf"
| "Math_min PosInf y = y"
| "Math_min x PosInf = x"
| "Math_min (Finite a) (Finite b) = Finite (min a b)"

definition getLevelProgress :: "'a PlayerStats_scheme \<Rightarrow> jsnum" where
  "getLevelProgress stats =
     (let currentLevelXP = getXPForCurrentLevel (currentLevel stats);
          nextLevelXP = getXPForNextLevel (currentLevel stats);
          progress = js_div (totalXP stats - currentLevelXP) (nextLevelXP - currentLevelXP)
      in Math_min (Math_max progress (Finite 0)) (Finite 1))"

subsection \<open>The key-value store\<close>

text \<open>
  \<^verbatim>\<open>AsyncStorage\<close> is a string-to-string store whose operations may throw. The store of the
  model holds the entries, the outcome of each coming operation (\<open>Some e\<close>: the operation
  throws \<open>e\<close> and leaves the entries as they are; the empty list: every operation succeeds)
  and the list of the accesses made so far. Awaited calls run one after the other; other
  tasks that could run between two awaits are not modelled, and neither is the haptic
  feedback, which is started and not awaited.
\<close>

datatype jsError = Error (message: string)

datatype access = GetItem string | SetItem string

record AsyncStorage =
  entries :: "string \<rightharpoonup> string"
  faults :: "jsError option list"
  accessed :: "access list"

definition AsyncStorage_getItem ::
  "string \<Rightarrow> AsyncStorage \<Rightarrow> (jsError + string option) \<times> AsyncStorage" where
  "AsyncStorage_getItem key st =
     (let st' = st\<lparr>faults := drop 1 (faults st), accessed := accessed st @ [GetItem key]\<rparr>
      in case faults st of
           Some e # _ \<Rightarrow> (Inl e, st')
         | _ \<Rightarrow> (Inr (entries st key), st'))"

definition AsyncStorage_setItem ::
  "string \<Rightarrow> string \<Rightarrow> AsyncStorage \<Rightarrow> (jsError + unit) \<times> AsyncStorage" where
  "AsyncStorage_setItem key v st =
     (let st' = st\<lparr>faults := drop 1 (faults st), accessed := accessed st @ [SetItem key]\<rparr>
      in case faults st of
           Some e # _ \<Rightarrow> (Inl e, st')
         | _ \<Rightarrow> (Inr (), st'\<lparr>entries := (entries st)(key \<mapsto> v)\<rparr>))"

text \<open>
  \<open>await m k\<close> continues with \<open>k\<close> when the awaited call \<open>m\<close> returned and passes the
  error on when it threw.
\<close>

definition await ::
  "(jsError + 'a) \<times> 's \<Rightarrow> ('a \<Rightarrow> 's \<Rightarrow> (jsError + 'b) \<times> 's) \<Rightarrow> (jsError + 'b) \<times> 's" where
  "await m k = (case m of (Inl e, s) \<Rightarrow> (Inl e, s) | (Inr v, s) \<Rightarrow> k v s)"

subsection \<open>Loading and saving the player statistics\<close>

text \<open>
  \<^verbatim>\<open>JSON.parse\<close>, \<^verbatim>\<open>JSON.stringify\<close> and the parsing of a date string belong to the
  JavaScript runtime and are parameters of the model. \<open>JSON_parse\<close> either throws or
  returns a value with the fields of \<open>PlayerStats\<close>; \<open>Date_parse\<close> gives the time value of
  \<^verbatim>\<open>new Date(s)\<close> in milliseconds, \<open>None\<close> for an invalid date.
\<close>

record Runtime =
  JSON_parse :: "string \<Rightarrow> jsError + PlayerStats"
  JSON_stringify :: "PlayerStats \<Rightarrow> string"
  Date_parse :: "string \<Rightarrow> int option"

definition STATS_KEY :: string where
  "STATS_KEY = ''@studyflow_player_stats''"

text \<open>
  The body of the \<^verbatim>\<open>try\<close> block of \<^verbatim>\<open>loadPlayerStats\<close>; \<^verbatim>\<open>if (data)\<close> is false for
  \<^verbatim>\<open>null\<close> and for the empty string.
\<close>

definition loadPlayerStats_try ::
  "Runtime \<Rightarrow> AsyncStorage \<Rightarrow> (jsError + PlayerStats) \<times> AsyncStorage" where
  "loadPlayerStats_try J st =
     await (AsyncStorage_getItem STATS_KEY st) (\<lambda>data st.
       case data of
         Some d \<Rightarrow> if d \<noteq> [] then (JSON_parse J d, st) else (Inr getDefaultStats, st)
       | None \<Rightarrow> (Inr getDefaultStats, st))"

definition loadPlayerStats ::
  "Runtime \<Rightarrow> AsyncStorage \<Rightarrow> (jsError + PlayerStats) \<times> AsyncStorage" where
  "loadPlayerStats J st =
     (case loadPlayerStats_try J st of
        (Inl error, st') \<Rightarrow> (Inr getDefaultStats, st')
      | (Inr v, st') \<Rightarrow> (Inr v, st'))"

definition savePlayerStats ::
  "Runtime \<Rightarrow> PlayerStats \<Rightarrow> AsyncStorage \<Rightarrow> (jsError + unit) \<times> AsyncStorage" where
  "savePlayerStats J stats st =
     (case AsyncStorage_setItem STATS_KEY (JSON_stringify J stats) st of
        (Inl error, st') \<Rightarrow> (Inr (), st')
      | (Inr u, st') \<Rightarrow> (Inr (), st'))"

subsection \<open>Awarding XP\<close>

record AwardResult =
  levelUp :: bool
  newLevel :: "int option"
  stats :: PlayerStats

definition awardXP ::
  "Runtime \<Rightarrow> int \<Rightarrow> string \<Rightarrow> AsyncStorage \<Rightarrow> (jsError + AwardResult) \<times> AsyncStorage" where
  "awardXP J xpAmount reason st =
     await (loadPlayerStats J st) (\<lambda>stats st.
       let oldLevel = currentLevel stats;
           stats = stats\<lparr>totalXP := totalXP stats + xpAmount\<rparr>;
           stats = stats\<lparr>currentLevel := calculateLevel (totalXP stats)\<rparr>
       in await (savePlayerStats J stats st) (\<lambda>_ st.
            let levelUp = currentLevel stats > oldLevel
            in (Inr \<lparr>levelUp = levelUp,
                     newLevel = (if levelUp then Some (currentLevel stats) else None),
                     stats = stats\<rparr>, st)))"

subsection \<open>Completing a task or a Pomodoro session\<close>

text \<open>
  What the operations read from the clock: \<open>now\<close> is the time value of the \<^verbatim>\<open>new Date()\<close>
  compared with the due date, \<open>today\<close> and \<open>yesterday\<close> are the results of
  \<^verbatim>\<open>toDateString()\<close> for the current date and for the date one day before, and \<open>hourAt\<close>
  gives the hours read by \<^verbatim>\<open>checkForNewBadges\<close>.
\<close>

record Clock =
  now :: int
  today :: string
  yesterday :: string
  hourAt :: "string \<Rightarrow> int"

text \<open>
  \<^verbatim>\<open>[...new Set(xs)]\<close>: the elements of \<open>xs\<close> in the order of their first occurrence.
\<close>

definition Set_spread :: "'a list \<Rightarrow> 'a list" where
  "Set_spread xs = fold (\<lambda>x acc. if x \<in> set acc then acc else acc @ [x]) xs []"

record CompleteTaskResult =
  result_xp :: int
  result_levelUp :: bool
  newBadges :: "Badge list"

text \<open>
  The updates of the task counters and of the streak that \<^verbatim>\<open>completeTask\<close> makes between
  loading the stats and checking for new badges. \<^verbatim>\<open>if (task.due_date)\<close> is false for
  \<^verbatim>\<open>undefined\<close> and for the empty string; \<^verbatim>\<open>now <= dueDate\<close> compares the time values
  and is false for an invalid date.
\<close>

definition completeTask_counters ::
  "Runtime \<Rightarrow> Clock \<Rightarrow> 'a CompletedTask_scheme \<Rightarrow> PlayerStats \<Rightarrow> PlayerStats" where
  "completeTask_counters J clk task stats0 =
     (let stats = stats0\<lparr>tasksCompleted := tasksCompleted stats0 + 1\<rparr>;
          stats = stats\<lparr>tasksCompletedToday := tasksCompletedToday stats + 1\<rparr>;
          stats = (case due_date task of
                     Some d \<Rightarrow>
                       if d \<noteq> [] then
                         (case Date_parse J d of
                            Some dueDate \<Rightarrow>
                              if now clk \<le> dueDate
                              then stats\<lparr>tasksCompletedOnTime := tasksCompletedOnTime stats + 1\<rparr>
                              else stats
                          | None \<Rightarrow> stats)
                       else stats
                   | None \<Rightarrow> stats)
      in if lastTaskDate stats \<noteq> Some (today clk) then
           let stats = (if lastTaskDate stats = Some (yesterday clk)
                        then stats\<lparr>currentStreak := currentStreak stats + 1\<rparr>
                        else stats\<lparr>currentStreak := 1\<rparr>);
               stats = (if currentStreak stats > longestStreak stats
                        then stats\<lparr>longestStreak := currentStreak stats\<rparr>
                        else stats)
           in stats\<lparr>lastTaskDate := Some (today clk), tasksCompletedToday := 1\<rparr>
         else stats)"

definition completeTask ::
  "Runtime \<Rightarrow> Clock \<Rightarrow> 'a CompletedTask_scheme \<Rightarrow> AsyncStorage
     \<Rightarrow> (jsError + CompleteTaskResult) \<times> AsyncStorage" where
  "completeTask J clk task st =
     await (loadPlayerStats J st) (\<lambda>stats st.
       let xp = calculateTaskXP task;
           stats = completeTask_counters J clk task stats;
           newBadges = checkForNewBadges (hourAt clk) stats;
           stats = stats\<lparr>badges := Set_spread (badges stats @ map badge_id newBadges)\<rparr>
       in await (savePlayerStats J stats st) (\<lambda>_ st.
            await (awardXP J xp ''Task completion'' st) (\<lambda>result st.
              (Inr \<lparr>result_xp = xp, result_levelUp = levelUp result, newBadges = newBadges\<rparr>, st))))"

definition completePomodoroSession ::
  "Runtime \<Rightarrow> Clock \<Rightarrow> AsyncStorage \<Rightarrow> (jsError + unit) \<times> AsyncStorage" where
  "completePomodoroSession J clk st =
     await (loadPlayerStats J st) (\<lambda>stats st.
       let stats = stats\<lparr>pomodoroSessions := pomodoroSessions stats + 1\<rparr>;
           newBadges = checkForNewBadges (hourAt clk) stats;
           stats = stats\<lparr>badges := Set_spread (badges stats @ map badge_id newBadges)\<rparr>
       in await (savePlayerStats J stats st) (\<lambda>_ st.
            await (awardXP J 5 ''Pomodoro session'' st) (\<lambda>_ st. (Inr (), st))))"

subsection \<open>The task edit modal\<close>

text \<open>
  The task handed to the modal and the object it passes to \<^verbatim>\<open>onSave\<close>. The fields carry
  the prefix \<open>t_\<close>; an absent or \<^verbatim>\<open>null\<close> field is \<open>None\<close>, and further properties of the
  task (\<^verbatim>\<open>[key: string]: any\<close>) are the extension of the record, which the spread
  \<^verbatim>\<open>...task\<close> keeps.
\<close>

record Task =
  t_id :: string
  t_user_id :: "string option"
  t_title :: string
  t_description :: "string option"
  t_type :: string
  t_priority :: "string option"
  t_due_date :: "string option"
  t_estimated_duration :: "jsnum option"

text \<open>
  The functions of the JavaScript runtime that the modal calls are parameters: \<open>'d\<close> is the
  type of \<^verbatim>\<open>Date\<close> objects, \<open>Date_toISOString\<close> throws on an invalid date, \<open>Number_String\<close>
  is \<^verbatim>\<open>String(n)\<close>.
\<close>

record 'd ModalRuntime =
  String_trim :: "string \<Rightarrow> string"
  parseInt :: "string \<Rightarrow> jsnum"
  Number_String :: "jsnum \<Rightarrow> string"
  Date_new :: "string \<Rightarrow> 'd"
  Date_toISOString :: "'d \<Rightarrow> jsError + string"

text \<open>
  The \<^verbatim>\<open>task\<close> prop and the form state of the component (the state variables carry the
  prefix \<open>st_\<close>). The flags \<^verbatim>\<open>showDatePicker\<close> and \<^verbatim>\<open>loading\<close>, which only change what is
  displayed, are not part of the model.
\<close>

record 'd TaskEditModal =
  prop_task :: "Task option"
  st_title :: string
  st_description :: string
  st_type :: string
  st_priority :: string
  st_dueDate :: "'d option"
  st_estimatedDuration :: string

definition initialModal :: "'d TaskEditModal" where
  "initialModal =
     \<lparr>prop_task = None, st_title = '''', st_description = '''', st_type = ''homework'',
      st_priority = ''medium'', st_dueDate = None, st_estimatedDuration = ''''\<rparr>"

definition taskTypes :: "(string \<times> string) list" where
  "taskTypes =
     [(''homework'', ''Devoir''), (''exam'', ''Examen''), (''project'', ''Projet''),
      (''reading'', ''Lecture''), (''other'', ''Autre'')]"

definition priorities :: "(string \<times> string \<times> string) list" where
  "priorities =
     [(''low'', ''Basse'', ''#10B981''), (''medium'', ''Moyenne'', ''#3B82F6''),
      (''high'', ''Haute'', ''#F59E0B''), (''urgent'', ''Urgente'', ''#EF4444'')]"

text \<open>
  \<^verbatim>\<open>x || d\<close> on an optional string: \<open>d\<close> when \<open>x\<close> is absent, \<^verbatim>\<open>null\<close> or empty. A number
  is truthy unless it is 0 or \<^verbatim>\<open>NaN\<close>.
\<close>

definition or_default :: "string option \<Rightarrow> string \<Rightarrow> string" where
  "or_default x d = (case x of Some s \<Rightarrow> if s \<noteq> [] then s else d | None \<Rightarrow> d)"

definition number_truthy :: "jsnum \<Rightarrow> bool" where
  "number_truthy n = (case n of Finite q \<Rightarrow> q \<noteq> 0 | NaN \<Rightarrow> False | _ \<Rightarrow> True)"

text \<open>
  The effect \<^verbatim>\<open>useEffect(() => { if (task) { ... } }, [task])\<close>, run when the \<^verbatim>\<open>task\<close> prop
  changes.
\<close>

definition useEffect_task :: "'d ModalRuntime \<Rightarrow> 'd TaskEditModal \<Rightarrow> 'd TaskEditModal" where
  "useEffect_task lib m =
     (case prop_task m of
        None \<Rightarrow> m
      | Some task \<Rightarrow>
          m\<lparr>st_title := t_title task,
            st_description := or_default (t_description task) '''',
            st_type := or_default (Some (t_type task)) ''homework'',
            st_priority := or_default (t_priority task) ''medium'',
            st_dueDate := (case t_due_date task of
                             Some d \<Rightarrow> if d \<noteq> [] then Some (Date_new lib d) else None
                           | None \<Rightarrow> None),
            st_estimatedDuration := (case t_estimated_duration task of
                                       Some n \<Rightarrow> if number_truthy n then Number_String lib n else ''''
                                     | None \<Rightarrow> '''')\<rparr>)"

text \<open>
  What can happen to the modal: the parent passes a new \<^verbatim>\<open>task\<close> prop, the user edits a
  text field, presses the \<open>i\<close>-th button of the type or of the priority group (there is
  one button for each entry of \<open>taskTypes\<close> and of \<open>priorities\<close>), or the date picker reports
  a date (\<open>None\<close>: no date selected).
\<close>

datatype 'd modal_event =
    SetTask "Task option"
  | ChangeTitle string
  | ChangeDescription string
  | PressType nat
  | PressPriority nat
  | PickDate "'d option"
  | ChangeEstimatedDuration string

fun modal_step :: "'d ModalRuntime \<Rightarrow> 'd TaskEditModal \<Rightarrow> 'd modal_event \<Rightarrow> 'd TaskEditModal" where
  "modal_step lib m (SetTask t) = useEffect_task lib (m\<lparr>prop_task := t\<rparr>)"
| "modal_step lib m (ChangeTitle s) = m\<lparr>st_title := s\<rparr>"
| "modal_step lib m (ChangeDescription s) = m\<lparr>st_description := s\<rparr>"
| "modal_step lib m (PressType i) =
     (if i < length taskTypes then m\<lparr>st_type := fst (taskTypes ! i)\<rparr> else m)"
| "modal_step lib m (PressPriority i) =
     (if i < length priorities then m\<lparr>st_priority := fst (priorities ! i)\<rparr> else m)"
| "modal_step lib m (PickDate selectedDate) =
     (case selectedDate of Some d \<Rightarrow> m\<lparr>st_dueDate := Some d\<rparr> | None \<Rightarrow> m)"
| "modal_step lib m (ChangeEstimatedDuration s) = m\<lparr>st_estimatedDuration := s\<rparr>"

definition modal_run :: "'d ModalRuntime \<Rightarrow> 'd modal_event list \<Rightarrow> 'd TaskEditModal" where
  "modal_run lib evs = foldl (modal_step lib) initialModal evs"

text \<open>
  \<^verbatim>\<open>handleSave\<close>, as the list of what it does; \<open>onSave\<close> gives the outcome of the callback
  for the object it is called with. The arguments of the object literal are evaluated
  before the call, so that a throwing \<^verbatim>\<open>dueDate.toISOString()\<close> prevents it.
\<close>

datatype modal_effect =
    SetLoading bool
  | OnSave Task
  | OnClose
  | ConsoleError string
  | Alert string

definition handleSave ::
  "'d ModalRuntime \<Rightarrow> (Task \<Rightarrow> jsError + unit) \<Rightarrow> 'd TaskEditModal \<Rightarrow> modal_effect list" where
  "handleSave lib onSave m =
     (case prop_task m of
        None \<Rightarrow> []
      | Some task \<Rightarrow>
          if String_trim lib (st_title m) = [] then []
          else
            [SetLoading True] @
            (case (case st_dueDate m of
                     None \<Rightarrow> Inr None
                   | Some d \<Rightarrow> (case Date_toISOString lib d of Inl e \<Rightarrow> Inl e | Inr s \<Rightarrow> Inr (Some s))) of
               Inl error \<Rightarrow>
                 [ConsoleError ''Error saving task:'', Alert ''Erreur lors de la sauvegarde'']
             | Inr due \<Rightarrow>
                 (let saved = task\<lparr>
                        t_title := String_trim lib (st_title m),
                        t_description := (if String_trim lib (st_description m) \<noteq> []
                                          then Some (String_trim lib (st_description m)) else None),
                        t_type := st_type m,
                        t_priority := Some (st_priority m),
                        t_due_date := due,
                        t_estimated_duration := (if st_estimatedDuration m \<noteq> []
                                                 then Some (parseInt lib (st_estimatedDuration m))
                                                 else None)\<rparr>
                  in OnSave saved #
                     (case onSave saved of
                        Inl error \<Rightarrow>
                          [ConsoleError ''Error saving task:'', Alert ''Erreur lors de la sauvegarde'']
                      | Inr _ \<Rightarrow> [OnClose]))) @
            [SetLoading False])"

subsection \<open>Calls of the REST backend\<close>

text \<open>
  The handlers of the import screen and of the courses screen are modelled as the list
  of what they do (state updates, alerts, console output and HTTP requests, in order)
  together with their outcome: \<open>Inr ()\<close> when the handler returns, \<open>Inl e\<close> when it throws
  \<open>e\<close> to its caller. Thrown values are \<^verbatim>\<open>Error\<close> objects with a message. The accented
  letters of the user-facing messages are written without accent.
\<close>

datatype json = JNull | JBool bool | JNum int | JStr string | JArr "json list"
  | JObj "(string \<times> json) list"

datatype reqbody = NoBody | JsonBody json | FormData string string string string

record Request =
  req_method :: string
  req_url :: string
  req_headers :: "string \<rightharpoonup> string"
  req_body :: reqbody

record Response =
  res_ok :: bool
  res_status :: int
  res_json :: "jsError + json"

record Session =
  access_token :: "string option"

record Asset =
  asset_uri :: string
  asset_name :: string

record PickResult =
  canceled :: bool
  assets :: "Asset list"

datatype effect =
    Alert_alert string json
  | Console_error string jsError
  | SetIcsLoading bool
  | SetIcsUrl string
  | SetPdfLoading bool
  | Fetch Request
  | SetError "string option"
  | SetCourses json
  | SetCoursesLoading bool
  | SetRefreshing bool
  | SetSaving bool
  | SetModalVisible bool
  | SetNewCourseName string

text \<open>
  What a handler finds outside itself: the outcome of \<^verbatim>\<open>supabase.auth.getSession()\<close>, of
  \<^verbatim>\<open>fetch\<close> for each request, and of the document picker; \<open>env_trim\<close> is
  \<^verbatim>\<open>String.prototype.trim\<close> and \<open>env_String\<close> the conversion of a value to a string in a
  template literal.
\<close>

record Env =
  env_trim :: "string \<Rightarrow> string"
  env_String :: "json option \<Rightarrow> string"
  env_session :: "jsError + Session option"
  env_fetch :: "Request \<Rightarrow> jsError + Response"
  env_pick :: "jsError + PickResult"

type_synonym 'a io = "effect list \<times> (jsError + 'a)"

definition io_return :: "'a \<Rightarrow> 'a io" where
  "io_return v = ([], Inr v)"

definition io_throw :: "jsError \<Rightarrow> 'a io" where
  "io_throw e = ([], Inl e)"

definition io_emit :: "effect \<Rightarrow> unit io" where
  "io_emit ef = ([ef], Inr ())"

definition io_await :: "jsError + 'a \<Rightarrow> 'a io" where
  "io_await r = ([], r)"

definition io_bind :: "'a io \<Rightarrow> ('a \<Rightarrow> 'b io) \<Rightarrow> 'b io" where
  "io_bind m k =
     (case m of
        (es, Inl e) \<Rightarrow> (es, Inl e)
      | (es, Inr v) \<Rightarrow> (case k v of (es', r) \<Rightarrow> (es @ es', r)))"

definition io_then :: "unit io \<Rightarrow> 'b io \<Rightarrow> 'b io" where
  "io_then m n = io_bind m (\<lambda>_. n)"

text \<open>
  \<^verbatim>\<open>try { m } catch (e) { h e }\<close>, \<^verbatim>\<open>try { m } finally { f }\<close>, and a call of an async
  function whose promise is not awaited: what it does is listed at the place of the
  call, its outcome is dropped.
\<close>

definition io_try_catch :: "'a io \<Rightarrow> (jsError \<Rightarrow> 'a io) \<Rightarrow> 'a io" where
  "io_try_catch m h =
     (case m of
        (es, Inl e) \<Rightarrow> (case h e of (es', r) \<Rightarrow> (es @ es', r))
      | (es, Inr v) \<Rightarrow> (es, Inr v))"

definition io_finally :: "'a io \<Rightarrow> unit io \<Rightarrow> 'a io" where
  "io_finally m f =
     (case m of (es, r) \<Rightarrow>
        (case f of
           (es', Inl e) \<Rightarrow> (es @ es', Inl e)
         | (es', Inr _) \<Rightarrow> (es @ es', r)))"

definition io_spawn :: "'a io \<Rightarrow> unit io" where
  "io_spawn m = (fst m, Inr ())"

definition js_get :: "json \<Rightarrow> string \<Rightarrow> jsError + json option" where
  "js_get v k =
     (case v of
        JNull \<Rightarrow> Inl (Error ''TypeError'')
      | JObj kvs \<Rightarrow> Inr (map_of kvs k)
      | JArr xs \<Rightarrow> Inr (if k = ''length'' then Some (JNum (int (length xs))) else None)
      | JStr s \<Rightarrow> Inr (if k = ''length'' then Some (JNum (int (length s))) else None)
      | _ \<Rightarrow> Inr None)"

definition js_get_opt :: "json option \<Rightarrow> string \<Rightarrow> jsError + json option" where
  "js_get_opt v k = (case v of None \<Rightarrow> Inl (Error ''TypeError'') | Some w \<Rightarrow> js_get w k)"

definition js_truthy :: "json option \<Rightarrow> bool" where
  "js_truthy v =
     (case v of
        None \<Rightarrow> False
      | Some JNull \<Rightarrow> False
      | Some (JBool b) \<Rightarrow> b
      | Some (JNum n) \<Rightarrow> n \<noteq> 0
      | Some (JStr s) \<Rightarrow> s \<noteq> []
      | Some _ \<Rightarrow> True)"

definition js_or :: "json option \<Rightarrow> json \<Rightarrow> json" where
  "js_or v d = (case v of Some w \<Rightarrow> if js_truthy v then w else d | None \<Rightarrow> d)"

definition API_BASE_URL :: string where
  "API_BASE_URL = ''http://172.20.10.2:5050/v1''"

text \<open>
  \<^verbatim>\<open>getAuthHeaders\<close>, given the outcome of \<^verbatim>\<open>supabase.auth.getSession()\<close>;
  \<^verbatim>\<open>session?.access_token\<close> is falsy without a session, without a token and for the empty
  token.
\<close>

definition getAuthHeaders :: "jsError + Session option \<Rightarrow> jsError + (string \<rightharpoonup> string)" where
  "getAuthHeaders got =
     (case got of
        Inl e \<Rightarrow> Inl e
      | Inr session \<Rightarrow>
          (case session of
             Some s \<Rightarrow>
               (case access_token s of
                  Some tok \<Rightarrow>
                    if tok \<noteq> [] then Inr [''Authorization'' \<mapsto> ''Bearer '' @ tok]
                    else Inr Map.empty
                | None \<Rightarrow> Inr Map.empty)
           | None \<Rightarrow> Inr Map.empty))"

definition io_fetch :: "Env \<Rightarrow> Request \<Rightarrow> Response io" where
  "io_fetch env req = ([Fetch req], env_fetch env req)"

text \<open>
  \<^verbatim>\<open>handleIcsSync\<close> of the import screen: the body of its \<^verbatim>\<open>try\<close> block, then the handler
  with its \<^verbatim>\<open>catch\<close> and \<^verbatim>\<open>finally\<close>. \<open>icsUrl\<close> is the state of the URL field.
\<close>

definition handleIcsSync_try :: "Env \<Rightarrow> string \<Rightarrow> unit io" where
  "handleIcsSync_try env icsUrl =
     io_bind (io_await (getAuthHeaders (env_session env))) (\<lambda>headers.
     io_bind (io_fetch env
                \<lparr>req_method = ''POST'', req_url = API_BASE_URL @ ''/ics/sync'',
                 req_headers = headers(''Content-Type'' \<mapsto> ''application/json''),
                 req_body = JsonBody (JObj [(''ics_url'', JStr icsUrl)])\<rparr>) (\<lambda>response.
     io_bind (io_await (res_json response)) (\<lambda>data.
       if res_ok response then
         io_bind (io_await (js_get data ''time_blocks_created'')) (\<lambda>n.
         io_then (io_emit (Alert_alert ''Succes'' (JStr (env_String env n @ '' cours importes''))))
                 (io_emit (SetIcsUrl [])))
       else
         io_bind (io_await (js_get data ''detail'')) (\<lambda>detail.
         io_emit (Alert_alert ''Erreur'' (js_or detail (JStr ''Erreur lors de l'import ICS'')))))))"

definition handleIcsSync :: "Env \<Rightarrow> string \<Rightarrow> unit io" where
  "handleIcsSync env icsUrl =
     (if env_trim env icsUrl = [] then
        io_emit (Alert_alert ''Erreur'' (JStr ''Veuillez entrer une URL ICS''))
      else
        io_then (io_emit (SetIcsLoading True))
          (io_finally
             (io_try_catch (handleIcsSync_try env icsUrl)
                (\<lambda>error.
                   io_then (io_emit (Console_error ''ICS sync error:'' error))
                     (io_emit (Alert_alert ''Erreur'' (JStr ''Impossible de se connecter au serveur'')))))
             (io_emit (SetIcsLoading False))))"

text \<open>
  \<^verbatim>\<open>handlePdfUpload\<close>; \<^verbatim>\<open>result.assets[0].uri\<close> throws a \<^verbatim>\<open>TypeError\<close> when the picker
  returned no asset, and the \<^verbatim>\<open>return\<close> on a cancelled pick still runs the \<^verbatim>\<open>finally\<close>
  block.
\<close>

definition handlePdfUpload_try :: "Env \<Rightarrow> unit io" where
  "handlePdfUpload_try env =
     io_bind (io_await (env_pick env)) (\<lambda>result.
       if canceled result then io_return ()
       else
         io_then (io_emit (SetPdfLoading True))
           (case assets result of
              [] \<Rightarrow> io_throw (Error ''TypeError'')
            | asset # _ \<Rightarrow>
                io_bind (io_await (getAuthHeaders (env_session env))) (\<lambda>headers.
                io_bind (io_fetch env
                           \<lparr>req_method = ''POST'', req_url = API_BASE_URL @ ''/extract-deadlines'',
                            req_headers = headers,
                            req_body = FormData ''file'' (asset_uri asset) (asset_name asset)
                                         ''application/pdf''\<rparr>) (\<lambda>response.
                io_bind (io_await (res_json response)) (\<lambda>data.
                  if res_ok response then
                    io_bind (io_await (js_get data ''tasks'')) (\<lambda>tasks.
                    io_bind (io_await (js_get_opt tasks ''length'')) (\<lambda>n.
                    io_emit (Alert_alert ''Succes''
                               (JStr (env_String env n @ '' taches extraites avec l'IA'')))))
                  else
                    io_bind (io_await (js_get data ''detail'')) (\<lambda>detail.
                    io_emit (Alert_alert ''Erreur''
                               (js_or detail (JStr ''Erreur lors de l'extraction'')))))))))"

definition handlePdfUpload :: "Env \<Rightarrow> unit io" where
  "handlePdfUpload env =
     io_finally
       (io_try_catch (handlePdfUpload_try env)
          (\<lambda>error.
             io_then (io_emit (Console_error ''PDF upload error:'' error))
               (io_emit (Alert_alert ''Erreur'' (JStr ''Impossible d'importer le PDF'')))))
       (io_emit (SetPdfLoading False))"

text \<open>
  \<^verbatim>\<open>load\<close> and \<^verbatim>\<open>saveCourse\<close> of the courses screen. \<open>e.message || d\<close> is \<open>d\<close> for an
  empty message. \<^verbatim>\<open>saveCourse\<close> starts \<^verbatim>\<open>load()\<close> without awaiting it; \<open>env'\<close> is what
  that call of \<^verbatim>\<open>load\<close> finds outside itself.
\<close>

definition message_or :: "jsError \<Rightarrow> string \<Rightarrow> string" where
  "message_or e d = (if message e \<noteq> [] then message e else d)"

definition http_error :: "Env \<Rightarrow> Response \<Rightarrow> jsError" where
  "http_error env res = Error (''HTTP '' @ env_String env (Some (JNum (res_status res))))"

definition load_try :: "Env \<Rightarrow> unit io" where
  "load_try env =
     io_bind (io_await (getAuthHeaders (env_session env))) (\<lambda>headers.
     io_bind (io_fetch env
                \<lparr>req_method = ''GET'', req_url = API_BASE_URL @ ''/courses'',
                 req_headers = headers, req_body = NoBody\<rparr>) (\<lambda>res.
       if \<not> res_ok res then io_throw (http_error env res)
       else
         io_bind (io_await (res_json res)) (\<lambda>data.
         io_bind (io_await (js_get data ''courses'')) (\<lambda>courses.
         io_emit (SetCourses (js_or courses (JArr [])))))))"

definition load :: "Env \<Rightarrow> unit io" where
  "load env =
     io_then (io_emit (SetError None))
       (io_finally
          (io_try_catch (load_try env)
             (\<lambda>e. io_emit (SetError (Some (message_or e ''Failed to load courses'')))))
          (io_then (io_emit (SetCoursesLoading False)) (io_emit (SetRefreshing False))))"

definition saveCourse_try :: "Env \<Rightarrow> Env \<Rightarrow> string \<Rightarrow> unit io" where
  "saveCourse_try env env' newCourseName =
     io_bind (io_await (getAuthHeaders (env_session env))) (\<lambda>headers.
     io_bind (io_fetch env
                \<lparr>req_method = ''POST'', req_url = API_BASE_URL @ ''/courses'',
                 req_headers = headers(''Content-Type'' \<mapsto> ''application/json''),
                 req_body = JsonBody (JObj [(''name'', JStr (env_trim env newCourseName))])\<rparr>) (\<lambda>res.
       if \<not> res_ok res then io_throw (http_error env res)
       else
         io_bind (io_await (res_json res)) (\<lambda>_.
         io_then (io_emit (SetModalVisible False))
           (io_then (io_emit (SetNewCourseName []))
              (io_then (io_emit (SetCoursesLoading True))
                 (io_spawn (load env')))))))"

definition saveCourse :: "Env \<Rightarrow> Env \<Rightarrow> string \<Rightarrow> unit io" where
  "saveCourse env env' newCourseName =
     (if env_trim env newCourseName = [] then
        io_emit (SetError (Some ''Le nom du cours est requis''))
      else
        io_then (io_emit (SetSaving True))
          (io_then (io_emit (SetError None))
             (io_finally
                (io_try_catch (saveCourse_try env env' newCourseName)
                   (\<lambda>e. io_emit (SetError (Some (message_or e ''Erreur lors de la creation'')))))
                (io_emit (SetSaving False)))))"

text \<open>
  The requests among the things a handler did.
\<close>

definition requests :: "effect list \<Rightarrow> Request list" where
  "requests es = concat (map (\<lambda>ef. case ef of Fetch r \<Rightarrow> [r] | _ \<Rightarrow> []) es)"

text \<open>
  \<^verbatim>\<open>deleteCourse\<close> of the courses screen (\<^verbatim>\<open>CoursesScreen\<close>): its \<^verbatim>\<open>fetch\<close> is called with
  \<^verbatim>\<open>{ method: 'DELETE' }\<close> and no headers, and it awaits \<^verbatim>\<open>load()\<close> after a successful
  response. In the newer screen (\<^verbatim>\<open>CoursesScreenNew\<close>), whose \<^verbatim>\<open>load\<close> is the same function,
  the handler of the confirmation button of \<^verbatim>\<open>deleteCourse\<close> first awaits
  \<^verbatim>\<open>getAuthHeaders()\<close> and passes the headers to \<^verbatim>\<open>fetch\<close>. Only the id of the course is
  read.
\<close>

record Course =
  course_id :: string
  course_user_id :: string
  course_name :: string
  course_code :: "string option"
  course_color :: "string option"
  professor :: "string option"
  credits :: "int option"
  semester :: "string option"
  course_description :: "string option"
  created_at :: "string option"
  updated_at :: "string option"

definition deleteCourse :: "Env \<Rightarrow> Env \<Rightarrow> 'a Course_scheme \<Rightarrow> unit io" where
  "deleteCourse env env' course =
     io_try_catch
       (io_bind (io_fetch env
                   \<lparr>req_method = ''DELETE'', req_url = API_BASE_URL @ ''/courses/'' @ course_id course,
                    req_headers = Map.empty, req_body = NoBody\<rparr>) (\<lambda>res.
          if \<not> res_ok res then io_throw (http_error env res)
          else load env'))
       (\<lambda>e. io_emit (SetError (Some (message_or e ''Erreur lors de la suppression''))))"

definition deleteCourse_New_onPress :: "Env \<Rightarrow> Env \<Rightarrow> 'a Course_scheme \<Rightarrow> unit io" where
  "deleteCourse_New_onPress env env' course =
     io_try_catch
       (io_bind (io_await (getAuthHeaders (env_session env))) (\<lambda>headers.
        io_bind (io_fetch env
                   \<lparr>req_method = ''DELETE'', req_url = API_BASE_URL @ ''/courses/'' @ course_id course,
                    req_headers = headers, req_body = NoBody\<rparr>) (\<lambda>res.
          if \<not> res_ok res then io_throw (http_error env res)
          else load env')))
       (\<lambda>e. io_emit (SetError (Some (message_or e ''Erreur lors de la suppression''))))"

subsection \<open>Concrete inputs\<close>

text \<open>
  The stats, tasks, clocks, stores and environments at which the theorems below are
  evaluated. \<open>demo_runtime\<close> serialises \<open>stats_A\<close> and \<open>stats_B\<close> as 'A' and 'B';
  \<open>demo_modal_runtime\<close> trims blanks and keeps dates as their strings.
\<close>

definition stats_12000_level_10 :: PlayerStats where
  "stats_12000_level_10 = getDefaultStats\<lparr>totalXP := 12000, currentLevel := 10\<rparr>"

definition stats_300_level_3 :: PlayerStats where
  "stats_300_level_3 = getDefaultStats\<lparr>totalXP := 300, currentLevel := 3\<rparr>"




definition clock_7 :: "string \<Rightarrow> int" where
  "clock_7 b = 7"

definition clock_12 :: "string \<Rightarrow> int" where
  "clock_12 b = 12"

definition clock_7_then_12 :: "string \<Rightarrow> int" where
  "clock_7_then_12 b = (if b = ''early_bird'' \<or> b = ''night_owl'' then 7 else 12)"

definition stats_one_task_today :: PlayerStats where
  "stats_one_task_today =
     getDefaultStats\<lparr>tasksCompleted := 1, tasksCompletedToday := 1, badges := [''first_task'']\<rparr>"

definition stats_A :: PlayerStats where
  "stats_A = getDefaultStats\<lparr>totalXP := 95, currentLevel := 1\<rparr>"

definition stats_B :: PlayerStats where
  "stats_B = getDefaultStats\<lparr>totalXP := 105, currentLevel := 2\<rparr>"

definition demo_runtime :: Runtime where
  "demo_runtime =
     \<lparr>JSON_parse = (\<lambda>d. if d = ''A'' then Inr stats_A else if d = ''B'' then Inr stats_B
                          else Inl (Error ''SyntaxError'')),
      JSON_stringify = (\<lambda>s. if s = stats_A then ''A'' else if s = stats_B then ''B'' else ''other''),
      Date_parse = (\<lambda>s. None)\<rparr>"

definition store_A :: AsyncStorage where
  "store_A = \<lparr>entries = [STATS_KEY \<mapsto> ''A''], faults = [], accessed = []\<rparr>"

definition store_failing :: AsyncStorage where
  "store_failing =
     \<lparr>entries = [STATS_KEY \<mapsto> ''A''], faults = [Some (Error ''disk''), Some (Error ''disk'')],
      accessed = []\<rparr>"

definition clock_noon :: Clock where
  "clock_noon = \<lparr>now = 0, today = ''Tue Nov 03 2026'', yesterday = ''Mon Nov 02 2026'',
                  hourAt = clock_12\<rparr>"

definition store_two_keys :: AsyncStorage where
  "store_two_keys =
     \<lparr>entries = [STATS_KEY \<mapsto> ''A'', ''@studyflow_settings'' \<mapsto> ''dark''],
      faults = [None, Some (Error ''disk'')], accessed = []\<rparr>"

definition task_medium :: CompletedTask where
  "task_medium = \<lparr>priority = ''medium'', estimated_duration = None, due_date = None\<rparr>"

definition demo_modal_runtime :: "string ModalRuntime" where
  "demo_modal_runtime =
     \<lparr>String_trim = (\<lambda>s. rev (dropWhile (\<lambda>c. c = CHR '' '') (rev (dropWhile (\<lambda>c. c = CHR '' '') s)))),
      parseInt = (\<lambda>s. NaN),
      Number_String = (\<lambda>n. ''0''),
      Date_new = (\<lambda>s. s),
      Date_toISOString = (\<lambda>d. Inr d)\<rparr>"

definition onSave_ok :: "Task \<Rightarrow> jsError + unit" where
  "onSave_ok t = Inr ()"

definition task_critical :: Task where
  "task_critical =
     \<lparr>t_id = ''42'', t_user_id = None, t_title = ''Essay'', t_description = None,
      t_type = ''homework'', t_priority = Some ''critical'', t_due_date = None,
      t_estimated_duration = None\<rparr>"

definition task_no_priority :: Task where
  "task_no_priority =
     \<lparr>t_id = ''43'', t_user_id = None, t_title = ''Lab report'', t_description = None,
      t_type = ''homework'', t_priority = None, t_due_date = None,
      t_estimated_duration = None\<rparr>"

definition env_offline :: Env where
  "env_offline =
     \<lparr>env_trim = (\<lambda>s. s), env_String = (\<lambda>v. ''?''),
      env_session = Inr (Some \<lparr>access_token = Some ''abc''\<rparr>),
      env_fetch = (\<lambda>req. Inl (Error ''Network request failed'')),
      env_pick = Inr \<lparr>canceled = True, assets = []\<rparr>\<rparr>"

definition env_online :: Env where
  "env_online =
     \<lparr>env_trim = (\<lambda>s. s), env_String = (\<lambda>v. ''?''),
      env_session = Inr (Some \<lparr>access_token = Some ''abc''\<rparr>),
      env_fetch = (\<lambda>req. Inr \<lparr>res_ok = True, res_status = 200,
                                res_json = Inr (JObj [(''courses'', JArr [])])\<rparr>),
      env_pick = Inr \<lparr>canceled = True, assets = []\<rparr>\<rparr>"

definition course_7 :: Course where
  "course_7 =
     \<lparr>course_id = ''7'', course_user_id = ''u1'', course_name = ''Algebra'', course_code = None,
      course_color = None, professor = None, credits = None, semester = None,
      course_description = None, created_at = None, updated_at = None\<rparr>"

subsection \<open>The invariant of the task edit modal\<close>

text \<open>
  While a task is shown, the priority of the form is one of the four values of the
  priority buttons or the non-empty priority that the task came with.
\<close>

definition priority_ok :: "'d TaskEditModal \<Rightarrow> bool" where
  "priority_ok m =
     (case prop_task m of
        None \<Rightarrow> True
      | Some t \<Rightarrow> st_priority m \<in> {''low'', ''medium'', ''high'', ''urgent''} \<or>
                  (t_priority t = Some (st_priority m) \<and> st_priority m \<noteq> []))"

section \<open>Properties\<close>

subsection \<open>The level of an XP total\<close>

lemma calculateLevel_cases:
  "calculateLevel x =
     (if 12000 \<le> x then 10 else if 8000 \<le> x then 9 else if 5500 \<le> x then 8
      else if 3500 \<le> x then 7 else if 2000 \<le> x then 6 else if 1000 \<le> x then 5
      else if 500 \<le> x then 4 else if 250 \<le> x then 3 else if 100 \<le> x then 2 else 1)"
  by (simp add: calculateLevel_def LEVELS_def eval_nat_numeral)

lemma LEVELS_xp: "map xp LEVELS = [0, 100, 250, 500, 1000, 2000, 3500, 5500, 8000, 12000]"
  by (simp add: LEVELS_def)

lemma LEVELS_level: "map level LEVELS = [1, 2, 3, 4, 5, 6, 7, 8, 9, 10]"
  by (simp add: LEVELS_def)

lemma LEVELS_xp_sorted: "sorted (map xp LEVELS)"
  unfolding LEVELS_xp by simp

lemma calculateLevel_loop_last:
  "n \<le> length LEVELS \<Longrightarrow> \<exists>j<n. xp (LEVELS ! j) \<le> x \<Longrightarrow>
   \<exists>i<n. xp (LEVELS ! i) \<le> x \<and> calculateLevel_loop n x = level (LEVELS ! i) \<and>
      (\<forall>j<n. i < j \<longrightarrow> x < xp (LEVELS ! j))"
proof (induction n)
  case 0
  then show ?case by simp
next
  case (Suc n)
  show ?case
  proof (cases "xp (LEVELS ! n) \<le> x")
    case True
    then show ?thesis by (intro exI [of _ n]) simp
  next
    case False
    with Suc.prems obtain j where j: "j < n" "xp (LEVELS ! j) \<le> x"
      by (metis less_Suc_eq)
    with Suc.IH Suc.prems obtain i where i: "i < n" "xp (LEVELS ! i) \<le> x"
      "calculateLevel_loop n x = level (LEVELS ! i)" "\<forall>j<n. i < j \<longrightarrow> x < xp (LEVELS ! j)"
      by (metis Suc_leD)
    with False show ?thesis
      by (intro exI [of _ i]) (auto simp: less_Suc_eq)
  qed
qed

lemma calculateLevel_greatest_entry:
  assumes "0 \<le> x"
  shows "\<exists>e \<in> set LEVELS. xp e \<le> x \<and> calculateLevel x = level e \<and>
           (\<forall>e' \<in> set LEVELS. xp e' \<le> x \<longrightarrow> xp e' \<le> xp e)"
proof -
  have len: "length LEVELS = 10" by (simp add: LEVELS_def)
  have "xp (LEVELS ! 0) \<le> x" using assms by (simp add: LEVELS_def)
  then have "\<exists>j<length LEVELS. xp (LEVELS ! j) \<le> x"
    using len by (intro exI [of _ 0]) simp
  with calculateLevel_loop_last [of "length LEVELS" x]
  obtain i where i: "i < length LEVELS" "xp (LEVELS ! i) \<le> x"
    "calculateLevel x = level (LEVELS ! i)"
    "\<forall>j<length LEVELS. i < j \<longrightarrow> x < xp (LEVELS ! j)"
    unfolding calculateLevel_def by auto
  have "xp e' \<le> xp (LEVELS ! i)" if e': "e' \<in> set LEVELS" "xp e' \<le> x" for e'
  proof -
    from e' obtain j where j: "j < length LEVELS" "e' = LEVELS ! j"
      by (metis in_set_conv_nth)
    with i e' have "j \<le> i" by (meson not_le_imp_less not_less)
    with LEVELS_xp_sorted i(1) j show ?thesis
      by (metis length_map nth_map sorted_nth_mono)
  qed
  with i show ?thesis
    by (intro bexI [of _ "LEVELS ! i"]) auto
qed

lemma calculateLevel_mono: "x \<le> y \<Longrightarrow> calculateLevel x \<le> calculateLevel y"
  unfolding calculateLevel_cases by (simp split: if_splits)

lemma calculateLevel_range: "1 \<le> calculateLevel x \<and> calculateLevel x \<le> 10"
  unfolding calculateLevel_cases by simp

text \<open>
  C1. The thresholds of \<open>LEVELS\<close> are 0, 100, 250, 500, 1000, 2000, 3500, 5500, 8000, 12000
  for the levels 1 to 10. For every non-negative integer \<open>x\<close>, \<open>calculateLevel x\<close> is the
  level of the entry of \<open>LEVELS\<close> with the greatest threshold that is at most \<open>x\<close>;
  \<open>calculateLevel\<close> is monotonically non-decreasing and its value lies between 1 and 10.
\<close>

theorem C1_calculateLevel_table_lookup:
  "map xp LEVELS = [0, 100, 250, 500, 1000, 2000, 3500, 5500, 8000, 12000] \<and>
   map level LEVELS = [1, 2, 3, 4, 5, 6, 7, 8, 9, 10] \<and>
   (0 \<le> x \<longrightarrow>
      (\<exists>e \<in> set LEVELS. xp e \<le> x \<and> calculateLevel x = level e \<and>
          (\<forall>e' \<in> set LEVELS. xp e' \<le> x \<longrightarrow> xp e' \<le> xp e))) \<and>
   (x \<le> y \<longrightarrow> calculateLevel x \<le> calculateLevel y) \<and>
   1 \<le> calculateLevel x \<and> calculateLevel x \<le> 10"
  using LEVELS_xp LEVELS_level calculateLevel_greatest_entry [of x]
    calculateLevel_mono [of x y] calculateLevel_range [of x]
  by blast

theorem C1_witness:
  "(0::int) \<le> 120 \<and> (120::int) \<le> 300 \<and> xp (LEVELS ! 1) \<le> 120 \<and>
   calculateLevel 120 = level (LEVELS ! 1) \<and> calculateLevel 120 = 2 \<and>
   calculateLevel 300 = 3 \<and> calculateLevel 120 \<le> calculateLevel 300"
  using C1_calculateLevel_table_lookup [of 120 300]
  by (simp add: calculateLevel_cases LEVELS_def)

subsection \<open>Progress to the next level\<close>

lemma getXPForCurrentLevel_cases:
  "getXPForCurrentLevel l =
     (if l = 1 then 0 else if l = 2 then 100 else if l = 3 then 250 else if l = 4 then 500
      else if l = 5 then 1000 else if l = 6 then 2000 else if l = 7 then 3500
      else if l = 8 then 5500 else if l = 9 then 8000 else if l = 10 then 12000 else 0)"
  by (simp add: getXPForCurrentLevel_def LEVELS_def)

lemma getXPForNextLevel_cases:
  "getXPForNextLevel l =
     (if l = 0 then 0 else if l = 1 then 100 else if l = 2 then 250 else if l = 3 then 500
      else if l = 4 then 1000 else if l = 5 then 2000 else if l = 6 then 3500
      else if l = 7 then 5500 else if l = 8 then 8000 else 12000)"
  by (simp add: getXPForNextLevel_def LEVELS_def)

lemma levelDivisor_pos:
  "l < 10 \<Longrightarrow> l \<noteq> 0 \<Longrightarrow> 0 < getXPForNextLevel l - getXPForCurrentLevel l"
  unfolding getXPForCurrentLevel_cases getXPForNextLevel_cases by simp

lemma clamp_Finite:
  "Math_min (Math_max (Finite q) (Finite 0)) (Finite 1) = Finite (min (max q 0) 1)"
  by simp

lemma getLevelProgress_Finite:
  assumes "getXPForNextLevel (currentLevel s) - getXPForCurrentLevel (currentLevel s) \<noteq> 0"
  shows "\<exists>q. getLevelProgress s = Finite q \<and> 0 \<le> q \<and> q \<le> 1"
  using assms by (simp add: getLevelProgress_def js_div_def Let_def)

lemma module_levels_in_table:
  "calculateLevel x \<in> set (map level LEVELS)"
  "currentLevel getDefaultStats \<in> set (map level LEVELS)"
  unfolding LEVELS_level calculateLevel_cases by (simp_all add: getDefaultStats_def)

text \<open>
  C10. The \<open>currentLevel\<close> of a \<open>PlayerStats\<close> value is a level of the table: the module
  writes no other (the default stats have level 1 and \<open>awardXP\<close> stores the result of
  \<open>calculateLevel\<close>), and the progress bar, the one caller of \<open>getLevelProgress\<close>, passes
  what \<open>loadPlayerStats\<close> returned. For every such stats value whose \<open>currentLevel\<close> is
  strictly below 10, the divisor that \<open>getLevelProgress\<close> computes (next-level XP minus
  current-level XP) is nonzero and the result is a number between 0 and 1 inclusive. At
  level 10 the divisor is zero, and there the result is \<^verbatim>\<open>NaN\<close> for a total of exactly
  12000 XP: the precondition is necessary.
\<close>

theorem C10_getLevelProgress_range:
  "(currentLevel s \<in> set (map level LEVELS) \<and> currentLevel s < 10 \<longrightarrow>
      getXPForNextLevel (currentLevel s) - getXPForCurrentLevel (currentLevel s) \<noteq> 0 \<and>
      (\<exists>q. getLevelProgress s = Finite q \<and> 0 \<le> q \<and> q \<le> 1)) \<and>
   (currentLevel s = 10 \<longrightarrow>
      getXPForNextLevel (currentLevel s) - getXPForCurrentLevel (currentLevel s) = 0) \<and>
   (currentLevel s = 10 \<and> totalXP s = 12000 \<longrightarrow> getLevelProgress s = NaN)"
proof -
  have "getXPForNextLevel (currentLevel s) - getXPForCurrentLevel (currentLevel s) \<noteq> 0"
    if "currentLevel s \<in> set (map level LEVELS)" "currentLevel s < 10"
  proof -
    from that(1) have "currentLevel s \<noteq> 0" unfolding LEVELS_level by auto
    with levelDivisor_pos [OF that(2)] show ?thesis by simp
  qed
  moreover have "getXPForNextLevel 10 - getXPForCurrentLevel 10 = 0"
    by (simp add: getXPForCurrentLevel_cases getXPForNextLevel_cases)
  moreover have "getLevelProgress s = NaN" if "currentLevel s = 10" "totalXP s = 12000"
    using that
    by (simp add: getLevelProgress_def js_div_def getXPForCurrentLevel_cases
        getXPForNextLevel_cases)
  ultimately show ?thesis
    using getLevelProgress_Finite [of s] by auto
qed

theorem C10_witness:
  "currentLevel stats_300_level_3 \<in> set (map level LEVELS) \<and>
   currentLevel stats_300_level_3 < 10 \<and>
   getXPForNextLevel (currentLevel stats_300_level_3)
     - getXPForCurrentLevel (currentLevel stats_300_level_3) = 250 \<and>
   getLevelProgress stats_300_level_3 = Finite (1 / 5) \<and>
   currentLevel stats_12000_level_10 = 10 \<and> totalXP stats_12000_level_10 = 12000 \<and>
   getLevelProgress stats_12000_level_10 = NaN"
  using C10_getLevelProgress_range [of stats_300_level_3]
    C10_getLevelProgress_range [of stats_12000_level_10]
  by (simp add: stats_300_level_3_def stats_12000_level_10_def getDefaultStats_def
      getLevelProgress_def js_div_def getXPForCurrentLevel_cases getXPForNextLevel_cases
      LEVELS_level)

subsection \<open>XP of a completed task\<close>

text \<open>
  Rounding to a double: the rounded quotient is a nearest one, a number above \<open>2 ^ 53\<close>
  lies between \<open>2 ^ 52\<close> and \<open>2 ^ 53\<close> units of its binade, and so does its rounding.
\<close>

lemma round_half_even_cases:
  "round_half_even a u = a div u \<or> round_half_even a u = a div u + 1"
  by (simp add: round_half_even_def Let_def)

lemma round_half_even_nearest:
  assumes "0 < u"
  shows "\<bar>round_half_even a u * u - a\<bar> \<le> \<bar>j * u - a\<bar>"
proof -
  define q r where "q = a div u" and "r = a mod u"
  have a: "a = q * u + r" and r: "0 \<le> r" "r < u"
    using assms by (simp_all add: q_def r_def)
  have d: "\<bar>round_half_even a u * u - a\<bar> \<le> r \<and> \<bar>round_half_even a u * u - a\<bar> \<le> u - r"
    using r unfolding round_half_even_def Let_def q_def [symmetric] r_def [symmetric] a
    by (auto simp: algebra_simps)
  show ?thesis
  proof (cases "j \<le> q")
    case True
    then have "j * u \<le> q * u" using assms by (simp add: mult_right_mono)
    with a r d show ?thesis by linarith
  next
    case False
    then have "q + 1 \<le> j" by simp
    then have "(q + 1) * u \<le> j * u" using assms by (intro mult_right_mono) simp_all
    then have "q * u + u \<le> j * u" by (simp add: algebra_simps)
    with a r d show ?thesis by linarith
  qed
qed

lemma bitlen_large: "2 ^ 53 < x \<Longrightarrow> 54 \<le> bitlen x"
proof -
  assume x: "(2::int) ^ 53 < x"
  then have "x < 2 ^ nat (bitlen x)" using bitlen_bounds [of x] by simp
  with x have "(2::int) ^ 53 < 2 ^ nat (bitlen x)" by linarith
  from power_less_imp_less_exp [OF _ this] have "53 < nat (bitlen x)" by simp
  then show ?thesis by simp
qed


lemma binade:
  assumes "2 ^ 53 < a"
  defines "u \<equiv> (2::int) ^ nat (bitlen a - 53)"
  shows "0 < u" "2 ^ 52 * u \<le> a" "a < 2 ^ 53 * u"
proof -
  have b: "54 \<le> bitlen a" using assms(1) by (rule bitlen_large)
  have a: "0 < a" using assms(1) by simp
  show "0 < u" by (simp add: u_def)
  have "nat (bitlen a - 1) = 52 + nat (bitlen a - 53)" "nat (bitlen a) = 53 + nat (bitlen a - 53)"
    using b by simp_all
  then have "(2::int) ^ nat (bitlen a - 1) = 2 ^ 52 * u" "(2::int) ^ nat (bitlen a) = 2 ^ 53 * u"
    unfolding u_def by (simp_all only: power_add)
  with bitlen_bounds [OF a] show "2 ^ 52 * u \<le> a" "a < 2 ^ 53 * u" by simp_all
qed

lemma round_binade:
  assumes "2 ^ 53 < a"
  defines "u \<equiv> (2::int) ^ nat (bitlen a - 53)"
  shows "2 ^ 52 * u \<le> round_half_even a u * u" "round_half_even a u * u \<le> 2 ^ 53 * u"
proof -
  note b = binade [OF assms(1), folded u_def]
  have "(2 ^ 52 * u) div u \<le> a div u"
    using b by (intro zdiv_mono1) simp_all
  then have "2 ^ 52 \<le> a div u" using b(1) by simp
  moreover have "a div u < 2 ^ 53"
  proof -
    have "a div u * u \<le> a"
      using b(1) by (metis mult.commute pos_mod_sign add_increasing2 mult_div_mod_eq order_refl)
    with b(3) have "a div u * u < 2 ^ 53 * u" by linarith
    with b(1) show ?thesis by (simp add: mult_less_cancel_right)
  qed
  ultimately have "2 ^ 52 \<le> round_half_even a u" "round_half_even a u \<le> 2 ^ 53"
    using round_half_even_cases [of a u] by auto
  with b(1) show "2 ^ 52 * u \<le> round_half_even a u * u" "round_half_even a u * u \<le> 2 ^ 53 * u"
    by (simp_all add: mult_right_mono)
qed

lemma double_round_exact: "\<bar>n\<bar> \<le> 2 ^ 53 \<Longrightarrow> double_round n = n"
  by (simp add: double_round_def)


lemma round_grid_ge:
  assumes "0 < u" "u dvd v" "v \<le> a"
  shows "v \<le> round_half_even a u * u"
proof -
  from assms(2) obtain j where "v = j * u" by (auto simp: dvd_def mult.commute)
  with round_half_even_nearest [OF assms(1), of a j] assms(3) show ?thesis by linarith
qed

lemma double_round_large:
  assumes "2 ^ 53 < \<bar>n\<bar>"
  shows "double_round n =
           sgn n * min (2 ^ 1024)
             (round_half_even \<bar>n\<bar> (2 ^ nat (bitlen \<bar>n\<bar> - 53)) * 2 ^ nat (bitlen \<bar>n\<bar> - 53))"
    and "2 ^ 53 \<le> min (2 ^ 1024)
             (round_half_even \<bar>n\<bar> (2 ^ nat (bitlen \<bar>n\<bar> - 53)) * 2 ^ nat (bitlen \<bar>n\<bar> - 53))"
proof -
  show "double_round n =
           sgn n * min (2 ^ 1024)
             (round_half_even \<bar>n\<bar> (2 ^ nat (bitlen \<bar>n\<bar> - 53)) * 2 ^ nat (bitlen \<bar>n\<bar> - 53))"
    using assms by (simp add: double_round_def)
  define u :: int where "u = 2 ^ nat (bitlen \<bar>n\<bar> - 53)"
  have "54 \<le> bitlen \<bar>n\<bar>" using assms by (rule bitlen_large)
  then have "nat (bitlen \<bar>n\<bar> - 53) = Suc (nat (bitlen \<bar>n\<bar> - 54))" by simp
  then have "u = 2 * 2 ^ nat (bitlen \<bar>n\<bar> - 54)" unfolding u_def by (simp only: power_Suc)
  moreover have "(1::int) \<le> 2 ^ nat (bitlen \<bar>n\<bar> - 54)" by simp
  ultimately have u2: "2 \<le> u" by linarith
  have "2 ^ 52 * u \<le> round_half_even \<bar>n\<bar> u * u"
    unfolding u_def using assms by (rule round_binade(1))
  moreover have "(2::int) ^ 53 \<le> 2 ^ 52 * u" using u2 by simp
  ultimately have "2 ^ 53 \<le> round_half_even \<bar>n\<bar> u * u" by (rule order_trans [rotated])
  then show "2 ^ 53 \<le> min (2 ^ 1024)
             (round_half_even \<bar>n\<bar> (2 ^ nat (bitlen \<bar>n\<bar> - 53)) * 2 ^ nat (bitlen \<bar>n\<bar> - 53))"
    unfolding u_def by simp
qed

lemma double_round_sign:
  "n < - (2 ^ 53) \<Longrightarrow> double_round n \<le> - (2 ^ 53)"
  "2 ^ 53 < n \<Longrightarrow> 2 ^ 53 \<le> double_round n"
  using double_round_large [of n] by (simp_all add: sgn_if)



lemma double_round_ge_30: "30 \<le> n \<Longrightarrow> 30 \<le> double_round n"
  using double_round_exact [of n] double_round_sign(2) [of n]
  by (cases "n \<le> 2 ^ 53") simp_all




lemma priorityBonus_range: "0 \<le> priorityBonus p \<and> priorityBonus p \<le> 15"
  by (simp add: priorityBonus_def)

lemma calculateTaskXP_eq:
  "calculateTaskXP t =
     (case estimated_duration t of
        Some d \<Rightarrow>
          if d \<noteq> 0
          then double_round (min (double_round (d * 2)) 30 + (10 + priorityBonus (priority t)))
          else 10 + priorityBonus (priority t)
      | None \<Rightarrow> 10 + priorityBonus (priority t))"
  using priorityBonus_range [of "priority t"]
  by (simp add: calculateTaskXP_def Let_def double_round_exact add.commute split: option.splits)











text \<open>
  The same loss further out: at a duration of \<open>- (10 ^ 17)\<close> the sums for 'urgent' and for
  'low' are both rounded to \<open>- (2 * 10 ^ 17)\<close>.
\<close>

lemma double_round_minus_1e17:
  "double_round (- 100000000000000000 * 2) = - 200000000000000000"
  "double_round (- 200000000000000000 + 10) = - 200000000000000000"
  "double_round (- 200000000000000000 + 15) = - 200000000000000000"
  by code_simp+

lemma calculateTaskXP_minus_1e17:
  "calculateTaskXP \<lparr>priority = ''urgent'', estimated_duration = Some (- 100000000000000000)\<rparr> =
     - 200000000000000000 \<and>
   calculateTaskXP \<lparr>priority = ''low'', estimated_duration = Some (- 100000000000000000)\<rparr> =
     - 200000000000000000"
  using double_round_minus_1e17
  by (simp add: calculateTaskXP_eq priorityBonus_def double_round_exact)

subsection \<open>Badge unlocking\<close>

lemma checkForNewBadges_forEach_filter:
  "checkForNewBadges_forEach h s bs acc =
     acc @ filter (\<lambda>b. badge_id b \<notin> set (badges s) \<and> badgeUnlock (h (badge_id b)) s (badge_id b)) bs"
  by (induction bs arbitrary: acc) simp_all

lemma checkForNewBadges_filter:
  "checkForNewBadges h s =
     filter (\<lambda>b. badge_id b \<notin> set (badges s) \<and> badgeUnlock (h (badge_id b)) s (badge_id b)) BADGES"
  by (simp add: checkForNewBadges_def checkForNewBadges_forEach_filter)

lemma badgeUnlock_hour:
  "b \<noteq> ''early_bird'' \<Longrightarrow> b \<noteq> ''night_owl'' \<Longrightarrow> badgeUnlock h s b = badgeUnlock h' s b"
  by (simp add: badgeUnlock_def)

lemma checkForNewBadges_same_hours:
  assumes "h ''early_bird'' = h' ''early_bird''" "h ''night_owl'' = h' ''night_owl''"
  shows "checkForNewBadges h s = checkForNewBadges h' s"
proof -
  have "badgeUnlock (h b) s b = badgeUnlock (h' b) s b" for b
    using assms badgeUnlock_hour [of b "h b" s "h' b"] by (cases "b = ''early_bird''"; cases "b = ''night_owl''") simp_all
  then show ?thesis by (simp add: checkForNewBadges_filter)
qed

lemma checkForNewBadges_other_badges:
  "filter (\<lambda>b. badge_id b \<noteq> ''early_bird'' \<and> badge_id b \<noteq> ''night_owl'') (checkForNewBadges h s) =
   filter (\<lambda>b. badge_id b \<noteq> ''early_bird'' \<and> badge_id b \<noteq> ''night_owl'') (checkForNewBadges h' s)"
  unfolding checkForNewBadges_filter filter_filter
  by (rule filter_cong [OF refl]) (use badgeUnlock_hour in blast)

text \<open>
  C2 (as amended). \<open>checkForNewBadges\<close> is a function of the stats and of the wall-clock
  hours it reads: two evaluations on the same stats that read the same hour for the
  badges 'early_bird' and 'night_owl' return the same list of badges, and any two
  evaluations on the same stats, whatever hours they read, return the same badges apart
  from 'early_bird' and 'night_owl'. A badge already listed in \<open>stats.badges\<close> is never
  returned.
\<close>

theorem C2_checkForNewBadges_clock:
  "(h ''early_bird'' = h' ''early_bird'' \<and> h ''night_owl'' = h' ''night_owl'' \<longrightarrow>
      checkForNewBadges h s = checkForNewBadges h' s) \<and>
   filter (\<lambda>b. badge_id b \<noteq> ''early_bird'' \<and> badge_id b \<noteq> ''night_owl'') (checkForNewBadges h s) =
   filter (\<lambda>b. badge_id b \<noteq> ''early_bird'' \<and> badge_id b \<noteq> ''night_owl'') (checkForNewBadges h' s) \<and>
   (\<forall>b \<in> set (checkForNewBadges h s). badge_id b \<notin> set (badges s))"
  using checkForNewBadges_same_hours [of h h' s] checkForNewBadges_other_badges [of h s h']
  by (simp add: checkForNewBadges_filter)

lemma checkForNewBadges_morning:
  "map badge_id (checkForNewBadges clock_7 stats_one_task_today) = [''early_bird'']"
  by (simp add: checkForNewBadges_def BADGES_def badgeUnlock_def clock_7_def
      stats_one_task_today_def getDefaultStats_def)

lemma checkForNewBadges_noon:
  "checkForNewBadges clock_12 stats_one_task_today = []"
  by (simp add: checkForNewBadges_def BADGES_def badgeUnlock_def clock_12_def
      stats_one_task_today_def getDefaultStats_def)

theorem C2_counterexample:
  "map badge_id (checkForNewBadges clock_7 stats_one_task_today) = [''early_bird''] \<and>
   checkForNewBadges clock_12 stats_one_task_today = [] \<and>
   checkForNewBadges clock_7 stats_one_task_today \<noteq> checkForNewBadges clock_12 stats_one_task_today"
  using checkForNewBadges_morning checkForNewBadges_noon by auto

theorem C2_witness:
  "clock_7 ''early_bird'' = clock_7_then_12 ''early_bird'' \<and>
   clock_7 ''night_owl'' = clock_7_then_12 ''night_owl'' \<and>
   clock_7 ''speedster'' \<noteq> clock_7_then_12 ''speedster'' \<and>
   checkForNewBadges clock_7 stats_one_task_today =
     checkForNewBadges clock_7_then_12 stats_one_task_today \<and>
   map badge_id (checkForNewBadges clock_7 stats_one_task_today) = [''early_bird''] \<and>
   ''first_task'' \<in> set (badges stats_one_task_today) \<and>
   ''first_task'' \<notin> badge_id ` set (checkForNewBadges clock_7 stats_one_task_today)"
  using C2_checkForNewBadges_clock [of clock_7 clock_7_then_12 stats_one_task_today]
    checkForNewBadges_morning
  by (auto simp: stats_one_task_today_def clock_7_def clock_7_then_12_def)

subsection \<open>Loading and saving\<close>

lemma getItem_accessed:
  "accessed (snd (AsyncStorage_getItem k st)) = accessed st @ [GetItem k]"
  by (simp add: AsyncStorage_getItem_def Let_def split: list.splits option.splits)

lemma getItem_entries:
  "entries (snd (AsyncStorage_getItem k st)) = entries st"
  by (simp add: AsyncStorage_getItem_def Let_def split: list.splits option.splits)

lemma setItem_accessed:
  "accessed (snd (AsyncStorage_setItem k v st)) = accessed st @ [SetItem k]"
  by (simp add: AsyncStorage_setItem_def Let_def split: list.splits option.splits)

lemma setItem_entries:
  "entries (snd (AsyncStorage_setItem k v st)) = entries st \<or>
   entries (snd (AsyncStorage_setItem k v st)) = (entries st)(k \<mapsto> v)"
  by (simp add: AsyncStorage_setItem_def Let_def split: list.splits option.splits)

lemma loadPlayerStats_returns: "\<exists>v. fst (loadPlayerStats J st) = Inr v"
  by (cases "loadPlayerStats_try J st" rule: prod.exhaust; cases "fst (loadPlayerStats_try J st)")
     (auto simp: loadPlayerStats_def)

lemma loadPlayerStats_snd:
  "snd (loadPlayerStats J st) = snd (AsyncStorage_getItem STATS_KEY st)"
  by (cases "AsyncStorage_getItem STATS_KEY st" rule: prod.exhaust)
     (auto simp: loadPlayerStats_def loadPlayerStats_try_def await_def
           split: sum.splits option.splits prod.splits)

lemma loadPlayerStats_throw:
  "fst (AsyncStorage_getItem STATS_KEY st) = Inl e \<Longrightarrow>
   fst (loadPlayerStats J st) = Inr getDefaultStats"
  by (cases "AsyncStorage_getItem STATS_KEY st" rule: prod.exhaust)
     (auto simp: loadPlayerStats_def loadPlayerStats_try_def await_def)

lemma loadPlayerStats_empty:
  "fst (AsyncStorage_getItem STATS_KEY st) = Inr None \<or>
   fst (AsyncStorage_getItem STATS_KEY st) = Inr (Some []) \<Longrightarrow>
   fst (loadPlayerStats J st) = Inr getDefaultStats"
  by (cases "AsyncStorage_getItem STATS_KEY st" rule: prod.exhaust)
     (auto simp: loadPlayerStats_def loadPlayerStats_try_def await_def)

lemma loadPlayerStats_parse_throw:
  "fst (AsyncStorage_getItem STATS_KEY st) = Inr (Some d) \<Longrightarrow> JSON_parse J d = Inl e \<Longrightarrow>
   fst (loadPlayerStats J st) = Inr getDefaultStats"
  by (cases "AsyncStorage_getItem STATS_KEY st" rule: prod.exhaust)
     (auto simp: loadPlayerStats_def loadPlayerStats_try_def await_def)

lemma savePlayerStats_returns: "fst (savePlayerStats J s st) = Inr ()"
  by (simp add: savePlayerStats_def split: prod.splits sum.splits)

lemma savePlayerStats_snd:
  "snd (savePlayerStats J s st) = snd (AsyncStorage_setItem STATS_KEY (JSON_stringify J s) st)"
  by (simp add: savePlayerStats_def split: prod.splits sum.splits)

text \<open>
  C3. \<open>loadPlayerStats\<close> always returns a value and never an error. When the read of the
  store throws, when the store holds nothing (or the empty string) under the key, and also
  when \<^verbatim>\<open>JSON.parse\<close> throws on the blob, the value is the default stats: \<open>totalXP\<close> 0,
  \<open>currentLevel\<close> 1, all counters 0 and no badge. \<open>savePlayerStats\<close> returns normally
  whether or not the write to the store throws.
\<close>

theorem C3_storage_errors_ignored:
  "(\<exists>v. fst (loadPlayerStats J st) = Inr v) \<and>
   (fst (AsyncStorage_getItem STATS_KEY st) = Inl e \<longrightarrow>
      fst (loadPlayerStats J st) = Inr getDefaultStats) \<and>
   (fst (AsyncStorage_getItem STATS_KEY st) = Inr None \<longrightarrow>
      fst (loadPlayerStats J st) = Inr getDefaultStats) \<and>
   (fst (AsyncStorage_getItem STATS_KEY st) = Inr (Some d) \<and> (d = [] \<or> JSON_parse J d = Inl e) \<longrightarrow>
      fst (loadPlayerStats J st) = Inr getDefaultStats) \<and>
   getDefaultStats =
     \<lparr>totalXP = 0, currentLevel = 1, tasksCompleted = 0, currentStreak = 0, longestStreak = 0,
      pomodoroSessions = 0, totalStudyHours = 0, badges = [], tasksCompletedOnTime = 0,
      tasksCompletedToday = 0, lastTaskDate = None\<rparr> \<and>
   fst (savePlayerStats J s st) = Inr ()"
  using loadPlayerStats_returns [of J st] loadPlayerStats_throw [of st e J]
    loadPlayerStats_empty [of st J] loadPlayerStats_parse_throw [of st d J e]
    savePlayerStats_returns [of J s st]
  by (auto simp: getDefaultStats_def)

theorem C3_witness:
  "fst (AsyncStorage_getItem STATS_KEY store_failing) = Inl (Error ''disk'') \<and>
   fst (loadPlayerStats demo_runtime store_failing) = Inr getDefaultStats \<and>
   fst (savePlayerStats demo_runtime stats_B store_failing) = Inr () \<and>
   entries (snd (savePlayerStats demo_runtime stats_B store_failing)) = entries store_failing"
  using C3_storage_errors_ignored [of demo_runtime store_failing "Error ''disk''" "[]" stats_B]
  by (simp add: store_failing_def AsyncStorage_getItem_def AsyncStorage_setItem_def
      savePlayerStats_def)

subsection \<open>Awarding XP\<close>

lemma awardXP_unfold:
  assumes "loadPlayerStats J st = (Inr s0, st1)"
  shows "awardXP J x r st =
     (Inr \<lparr>levelUp = calculateLevel (totalXP s0 + x) > currentLevel s0,
           newLevel = (if calculateLevel (totalXP s0 + x) > currentLevel s0
                       then Some (calculateLevel (totalXP s0 + x)) else None),
           stats = s0\<lparr>totalXP := totalXP s0 + x, currentLevel := calculateLevel (totalXP s0 + x)\<rparr>\<rparr>,
      snd (savePlayerStats J
             (s0\<lparr>totalXP := totalXP s0 + x, currentLevel := calculateLevel (totalXP s0 + x)\<rparr>) st1))"
  using assms savePlayerStats_returns [of J
      "s0\<lparr>totalXP := totalXP s0 + x, currentLevel := calculateLevel (totalXP s0 + x)\<rparr>" st1]
  by (cases "savePlayerStats J
      (s0\<lparr>totalXP := totalXP s0 + x, currentLevel := calculateLevel (totalXP s0 + x)\<rparr>) st1"
      rule: prod.exhaust)
     (simp add: awardXP_def await_def Let_def)

lemma loadPlayerStats_pair:
  "\<exists>s0. loadPlayerStats J st = (Inr s0, snd (AsyncStorage_getItem STATS_KEY st))"
  using loadPlayerStats_returns [of J st] loadPlayerStats_snd [of J st]
  by (cases "loadPlayerStats J st" rule: prod.exhaust) auto

lemma awardXP_spec:
  "\<exists>s0 st1 res.
     loadPlayerStats J st = (Inr s0, st1) \<and>
     awardXP J x r st = (Inr res, snd (savePlayerStats J (stats res) st1)) \<and>
     totalXP (stats res) = totalXP s0 + x \<and>
     currentLevel (stats res) = calculateLevel (totalXP (stats res)) \<and>
     levelUp res = (calculateLevel (totalXP s0 + x) > currentLevel s0) \<and>
     newLevel res = (if levelUp res then Some (currentLevel (stats res)) else None)"
proof -
  obtain s0 where l: "loadPlayerStats J st = (Inr s0, snd (AsyncStorage_getItem STATS_KEY st))"
    using loadPlayerStats_pair by blast
  show ?thesis
    unfolding awardXP_unfold [OF l] l by simp
qed

lemma await_Inr: "m = (Inr v, s) \<Longrightarrow> await m k = k v s"
  by (simp add: await_def)

lemma savePlayerStats_pair:
  "savePlayerStats J s st = (Inr (), snd (savePlayerStats J s st))"
  using savePlayerStats_returns [of J s st] by (cases "savePlayerStats J s st" rule: prod.exhaust) simp

lemma awardXP_pair:
  "\<exists>res. awardXP J x r st = (Inr res, snd (awardXP J x r st))"
  using awardXP_spec [of J st x r] by auto

lemma completeTask_delegates:
  "\<exists>S stm res out.
     stm = snd (savePlayerStats J S (snd (loadPlayerStats J st))) \<and>
     awardXP J (calculateTaskXP task) ''Task completion'' stm = (Inr res, snd (completeTask J clk task st)) \<and>
     fst (completeTask J clk task st) = Inr out \<and>
     result_xp out = calculateTaskXP task \<and> result_levelUp out = levelUp res"
proof -
  obtain s0 where l: "loadPlayerStats J st = (Inr s0, snd (AsyncStorage_getItem STATS_KEY st))"
    using loadPlayerStats_pair by blast
  define S where "S = (completeTask_counters J clk task s0)
     \<lparr>badges := Set_spread (badges (completeTask_counters J clk task s0) @
          map badge_id (checkForNewBadges (hourAt clk) (completeTask_counters J clk task s0)))\<rparr>"
  define stm where "stm = snd (savePlayerStats J S (snd (AsyncStorage_getItem STATS_KEY st)))"
  obtain res where a: "awardXP J (calculateTaskXP task) ''Task completion'' stm =
      (Inr res, snd (awardXP J (calculateTaskXP task) ''Task completion'' stm))"
    using awardXP_pair by blast
  have s: "savePlayerStats J S (snd (AsyncStorage_getItem STATS_KEY st)) = (Inr (), stm)"
    unfolding stm_def by (rule savePlayerStats_pair)
  have "completeTask J clk task st =
      (Inr \<lparr>result_xp = calculateTaskXP task, result_levelUp = levelUp res,
            newBadges = checkForNewBadges (hourAt clk) (completeTask_counters J clk task s0)\<rparr>,
       snd (awardXP J (calculateTaskXP task) ''Task completion'' stm))"
    unfolding completeTask_def await_Inr [OF l] Let_def S_def [symmetric]
      await_Inr [OF s] await_Inr [OF a] ..
  with a l show ?thesis unfolding stm_def by auto
qed

lemma completePomodoroSession_delegates:
  "\<exists>S stm res.
     stm = snd (savePlayerStats J S (snd (loadPlayerStats J st))) \<and>
     awardXP J 5 ''Pomodoro session'' stm = (Inr res, snd (completePomodoroSession J clk st)) \<and>
     fst (completePomodoroSession J clk st) = Inr ()"
proof -
  obtain s0 where l: "loadPlayerStats J st = (Inr s0, snd (AsyncStorage_getItem STATS_KEY st))"
    using loadPlayerStats_pair by blast
  define S where "S = (s0\<lparr>pomodoroSessions := pomodoroSessions s0 + 1\<rparr>)
     \<lparr>badges := Set_spread (badges (s0\<lparr>pomodoroSessions := pomodoroSessions s0 + 1\<rparr>) @
          map badge_id (checkForNewBadges (hourAt clk) (s0\<lparr>pomodoroSessions := pomodoroSessions s0 + 1\<rparr>)))\<rparr>"
  define stm where "stm = snd (savePlayerStats J S (snd (AsyncStorage_getItem STATS_KEY st)))"
  obtain res where a: "awardXP J 5 ''Pomodoro session'' stm =
      (Inr res, snd (awardXP J 5 ''Pomodoro session'' stm))"
    using awardXP_pair by blast
  have s: "savePlayerStats J S (snd (AsyncStorage_getItem STATS_KEY st)) = (Inr (), stm)"
    unfolding stm_def by (rule savePlayerStats_pair)
  have "completePomodoroSession J clk st =
      (Inr (), snd (awardXP J 5 ''Pomodoro session'' stm))"
    unfolding completePomodoroSession_def await_Inr [OF l] Let_def S_def [symmetric]
      await_Inr [OF s] await_Inr [OF a] ..
  with a l show ?thesis unfolding stm_def by auto
qed

lemma savePlayerStats_entries:
  "entries (snd (savePlayerStats J s st)) = (entries st)(STATS_KEY \<mapsto> JSON_stringify J s) \<or>
   entries (snd (savePlayerStats J s st)) = entries st"
  unfolding savePlayerStats_snd using setItem_entries by blast

text \<open>
  C5. \<open>awardXP\<close> always returns; the stats it returns are the loaded stats with the amount
  added to \<open>totalXP\<close> and \<open>currentLevel\<close> recomputed, so \<open>currentLevel = calculateLevel totalXP\<close>
  holds for them, and they are the stats it hands to \<open>savePlayerStats\<close>: the store after the
  call is the store after saving them, its entry either their serialisation or, when the
  write failed, left as it was. \<open>levelUp\<close> is true exactly when the recomputed level
  exceeds the level of the loaded stats. \<open>completeTask\<close> and \<open>completePomodoroSession\<close>
  end with a call of \<open>awardXP\<close> (with the XP of the task, and with 5) whose final store is
  theirs and whose \<open>levelUp\<close> flag \<open>completeTask\<close> returns.
\<close>

theorem C5_awardXP_level_invariant:
  "(\<exists>s0 st1 res.
      loadPlayerStats J st = (Inr s0, st1) \<and>
      awardXP J x r st = (Inr res, snd (savePlayerStats J (stats res) st1)) \<and>
      totalXP (stats res) = totalXP s0 + x \<and>
      currentLevel (stats res) = calculateLevel (totalXP (stats res)) \<and>
      levelUp res = (calculateLevel (totalXP (stats res)) > currentLevel s0) \<and>
      (entries (snd (awardXP J x r st)) = (entries st1)(STATS_KEY \<mapsto> JSON_stringify J (stats res)) \<or>
       entries (snd (awardXP J x r st)) = entries st1)) \<and>
   (\<exists>S stm res out.
      stm = snd (savePlayerStats J S (snd (loadPlayerStats J st))) \<and>
      awardXP J (calculateTaskXP task) ''Task completion'' stm =
        (Inr res, snd (completeTask J clk task st)) \<and>
      fst (completeTask J clk task st) = Inr out \<and>
      result_xp out = calculateTaskXP task \<and> result_levelUp out = levelUp res) \<and>
   (\<exists>S stm res.
      stm = snd (savePlayerStats J S (snd (loadPlayerStats J st))) \<and>
      awardXP J 5 ''Pomodoro session'' stm = (Inr res, snd (completePomodoroSession J clk st)) \<and>
      fst (completePomodoroSession J clk st) = Inr ())"
proof -
  obtain s0 st1 res where a:
    "loadPlayerStats J st = (Inr s0, st1)"
    "awardXP J x r st = (Inr res, snd (savePlayerStats J (stats res) st1))"
    "totalXP (stats res) = totalXP s0 + x"
    "currentLevel (stats res) = calculateLevel (totalXP (stats res))"
    "levelUp res = (calculateLevel (totalXP s0 + x) > currentLevel s0)"
    using awardXP_spec [of J st x r] by blast
  have "entries (snd (awardXP J x r st)) = (entries st1)(STATS_KEY \<mapsto> JSON_stringify J (stats res)) \<or>
        entries (snd (awardXP J x r st)) = entries st1"
    using savePlayerStats_entries [of J "stats res" st1] a(2) by simp
  with a have "\<exists>s0 st1 res.
      loadPlayerStats J st = (Inr s0, st1) \<and>
      awardXP J x r st = (Inr res, snd (savePlayerStats J (stats res) st1)) \<and>
      totalXP (stats res) = totalXP s0 + x \<and>
      currentLevel (stats res) = calculateLevel (totalXP (stats res)) \<and>
      levelUp res = (calculateLevel (totalXP (stats res)) > currentLevel s0) \<and>
      (entries (snd (awardXP J x r st)) = (entries st1)(STATS_KEY \<mapsto> JSON_stringify J (stats res)) \<or>
       entries (snd (awardXP J x r st)) = entries st1)"
    by (intro exI [of _ s0] exI [of _ st1] exI [of _ res]) simp
  then show ?thesis
    using completeTask_delegates [of J st task clk] completePomodoroSession_delegates [of J st clk]
    by blast
qed

lemma awardXP_store_A:
  "awardXP demo_runtime 10 ''bonus'' store_A =
     (Inr \<lparr>levelUp = True, newLevel = Some 2, stats = stats_B\<rparr>,
      \<lparr>entries = [STATS_KEY \<mapsto> ''B''], faults = [],
       accessed = [GetItem STATS_KEY, SetItem STATS_KEY]\<rparr>)"
proof -
  have l: "loadPlayerStats demo_runtime store_A =
      (Inr stats_A, store_A\<lparr>accessed := [GetItem STATS_KEY]\<rparr>)"
    by (simp add: loadPlayerStats_def loadPlayerStats_try_def await_def AsyncStorage_getItem_def
        store_A_def demo_runtime_def)
  have b: "stats_A\<lparr>totalXP := totalXP stats_A + 10,
              currentLevel := calculateLevel (totalXP stats_A + 10)\<rparr> = stats_B"
    by (simp add: stats_A_def stats_B_def getDefaultStats_def calculateLevel_cases)
  have ne: "stats_B \<noteq> stats_A"
    by (simp add: stats_A_def stats_B_def getDefaultStats_def)
  show ?thesis
    unfolding awardXP_unfold [OF l] b
    using ne by (simp add: savePlayerStats_def AsyncStorage_setItem_def store_A_def
        demo_runtime_def stats_A_def stats_B_def getDefaultStats_def calculateLevel_cases)
qed

theorem C5_witness:
  "fst (awardXP demo_runtime 10 ''bonus'' store_A) =
     Inr \<lparr>levelUp = True, newLevel = Some 2, stats = stats_B\<rparr> \<and>
   currentLevel stats_A = 1 \<and> totalXP stats_B = 105 \<and>
   currentLevel stats_B = calculateLevel (totalXP stats_B) \<and>
   entries (snd (awardXP demo_runtime 10 ''bonus'' store_A)) STATS_KEY = Some ''B''"
  using C5_awardXP_level_invariant [of demo_runtime store_A 10 "''bonus''" task_medium clock_noon]
    awardXP_store_A
  by (simp add: stats_A_def stats_B_def getDefaultStats_def calculateLevel_cases)

subsection \<open>The store entries that the gamification module touches\<close>

lemma setItem_entries_other:
  "k \<noteq> key \<Longrightarrow> entries (snd (AsyncStorage_setItem key v st)) k = entries st k"
  using setItem_entries [of key v st] by auto

lemma loadPlayerStats_frame:
  "accessed (snd (loadPlayerStats J st)) = accessed st @ [GetItem STATS_KEY] \<and>
   entries (snd (loadPlayerStats J st)) = entries st"
  by (simp add: loadPlayerStats_snd getItem_accessed getItem_entries)

lemma savePlayerStats_frame:
  "accessed (snd (savePlayerStats J s st)) = accessed st @ [SetItem STATS_KEY] \<and>
   (k \<noteq> STATS_KEY \<longrightarrow> entries (snd (savePlayerStats J s st)) k = entries st k)"
  by (simp add: savePlayerStats_snd setItem_accessed setItem_entries_other)

lemma awardXP_frame:
  "accessed (snd (awardXP J x r st)) = accessed st @ [GetItem STATS_KEY, SetItem STATS_KEY] \<and>
   (k \<noteq> STATS_KEY \<longrightarrow> entries (snd (awardXP J x r st)) k = entries st k)"
proof -
  obtain s0 st1 res where a: "loadPlayerStats J st = (Inr s0, st1)"
    "awardXP J x r st = (Inr res, snd (savePlayerStats J (stats res) st1))"
    using awardXP_spec [of J st x r] by blast
  from a(1) have "st1 = snd (loadPlayerStats J st)" by simp
  with a(2) show ?thesis
    using loadPlayerStats_frame [of J st] savePlayerStats_frame [of J "stats res" st1 k]
    by simp
qed

lemma load_save_award_frame:
  "accessed (snd (awardXP J x r (snd (savePlayerStats J S (snd (loadPlayerStats J st)))))) =
     accessed st @ [GetItem STATS_KEY, SetItem STATS_KEY, GetItem STATS_KEY, SetItem STATS_KEY] \<and>
   (k \<noteq> STATS_KEY \<longrightarrow>
      entries (snd (awardXP J x r (snd (savePlayerStats J S (snd (loadPlayerStats J st)))))) k =
      entries st k)"
  using loadPlayerStats_frame [of J st]
    savePlayerStats_frame [of J S "snd (loadPlayerStats J st)" k]
    awardXP_frame [of J x r "snd (savePlayerStats J S (snd (loadPlayerStats J st)))" k]
  by simp

lemma completeTask_frame:
  "accessed (snd (completeTask J clk task st)) =
     accessed st @ [GetItem STATS_KEY, SetItem STATS_KEY, GetItem STATS_KEY, SetItem STATS_KEY] \<and>
   (k \<noteq> STATS_KEY \<longrightarrow> entries (snd (completeTask J clk task st)) k = entries st k)"
proof -
  obtain S res where
    "awardXP J (calculateTaskXP task) ''Task completion''
       (snd (savePlayerStats J S (snd (loadPlayerStats J st)))) =
     (Inr res, snd (completeTask J clk task st))"
    using completeTask_delegates [of J st task clk] by blast
  then have "snd (completeTask J clk task st) =
     snd (awardXP J (calculateTaskXP task) ''Task completion''
       (snd (savePlayerStats J S (snd (loadPlayerStats J st)))))"
    by simp
  then show ?thesis
    using load_save_award_frame [of J "calculateTaskXP task" "''Task completion''" S st k]
    by simp
qed

lemma completePomodoroSession_frame:
  "accessed (snd (completePomodoroSession J clk st)) =
     accessed st @ [GetItem STATS_KEY, SetItem STATS_KEY, GetItem STATS_KEY, SetItem STATS_KEY] \<and>
   (k \<noteq> STATS_KEY \<longrightarrow> entries (snd (completePomodoroSession J clk st)) k = entries st k)"
proof -
  obtain S res where
    "awardXP J 5 ''Pomodoro session'' (snd (savePlayerStats J S (snd (loadPlayerStats J st)))) =
     (Inr res, snd (completePomodoroSession J clk st))"
    using completePomodoroSession_delegates [of J st clk] by blast
  then have "snd (completePomodoroSession J clk st) =
     snd (awardXP J 5 ''Pomodoro session'' (snd (savePlayerStats J S (snd (loadPlayerStats J st)))))"
    by simp
  then show ?thesis
    using load_save_award_frame [of J 5 "''Pomodoro session''" S st k]
    by simp
qed

text \<open>
  C9. The key of the stats blob is the fixed string '@studyflow_player_stats'.
  \<open>loadPlayerStats\<close> makes exactly one access to the store, a read of that key, and
  \<open>savePlayerStats\<close> exactly one, a write of that key, whether the access succeeds or throws;
  \<open>awardXP\<close> reads and then writes it, \<open>completeTask\<close> and \<open>completePomodoroSession\<close> read,
  write, read and write it. None of the five operations accesses another key, and the
  entry of every other key is after the operation what it was before.
\<close>

theorem C9_single_stats_key:
  "STATS_KEY = ''@studyflow_player_stats'' \<and>
   accessed (snd (loadPlayerStats J st)) = accessed st @ [GetItem STATS_KEY] \<and>
   accessed (snd (savePlayerStats J s st)) = accessed st @ [SetItem STATS_KEY] \<and>
   accessed (snd (awardXP J x r st)) = accessed st @ [GetItem STATS_KEY, SetItem STATS_KEY] \<and>
   accessed (snd (completeTask J clk task st)) =
     accessed st @ [GetItem STATS_KEY, SetItem STATS_KEY, GetItem STATS_KEY, SetItem STATS_KEY] \<and>
   accessed (snd (completePomodoroSession J clk st)) =
     accessed st @ [GetItem STATS_KEY, SetItem STATS_KEY, GetItem STATS_KEY, SetItem STATS_KEY] \<and>
   (k \<noteq> STATS_KEY \<longrightarrow>
      entries (snd (loadPlayerStats J st)) k = entries st k \<and>
      entries (snd (savePlayerStats J s st)) k = entries st k \<and>
      entries (snd (awardXP J x r st)) k = entries st k \<and>
      entries (snd (completeTask J clk task st)) k = entries st k \<and>
      entries (snd (completePomodoroSession J clk st)) k = entries st k)"
  using loadPlayerStats_frame [of J st] savePlayerStats_frame [of J s st k]
    awardXP_frame [of J x r st k] completeTask_frame [of J clk task st k]
    completePomodoroSession_frame [of J clk st k]
  by (simp add: STATS_KEY_def)

theorem C9_witness:
  "''@studyflow_settings'' \<noteq> STATS_KEY \<and>
   entries store_two_keys ''@studyflow_settings'' = Some ''dark'' \<and>
   entries (snd (completeTask demo_runtime clock_noon task_medium store_two_keys))
     ''@studyflow_settings'' = Some ''dark'' \<and>
   accessed (snd (completeTask demo_runtime clock_noon task_medium store_two_keys)) =
     [GetItem STATS_KEY, SetItem STATS_KEY, GetItem STATS_KEY, SetItem STATS_KEY]"
  using C9_single_stats_key [of demo_runtime store_two_keys stats_A 10 "''bonus''" clock_noon
      task_medium "''@studyflow_settings''"]
  by (simp add: STATS_KEY_def store_two_keys_def)

subsection \<open>The priority that the task edit modal saves\<close>

lemma priorities_values:
  "i < length priorities \<Longrightarrow> fst (priorities ! i) \<in> {''low'', ''medium'', ''high'', ''urgent''}"
  by (auto simp: priorities_def less_Suc_eq numeral_eq_Suc)

lemma or_default_priority:
  "or_default p ''medium'' = ''medium'' \<or> (p = Some (or_default p ''medium'') \<and> or_default p ''medium'' \<noteq> [])"
  by (auto simp: or_default_def split: option.splits)

lemma priority_ok_step: "priority_ok m \<Longrightarrow> priority_ok (modal_step lib m ev)"
proof (cases ev)
  case (SetTask t)
  show ?thesis
  proof (cases t)
    case None
    with SetTask show ?thesis by (simp add: priority_ok_def useEffect_task_def)
  next
    case (Some task)
    with SetTask or_default_priority [of "t_priority task"] show ?thesis
      by (auto simp: priority_ok_def useEffect_task_def)
  qed
next
  case (PressPriority i)
  assume "priority_ok m"
  with PressPriority priorities_values [of i] show ?thesis
    by (auto simp: priority_ok_def split: option.splits)
next
  case (PickDate d)
  assume "priority_ok m"
  with PickDate show ?thesis by (cases d) (auto simp: priority_ok_def split: option.splits)
qed (auto simp: priority_ok_def split: option.splits)

lemma priority_ok_foldl: "priority_ok m \<Longrightarrow> priority_ok (foldl (modal_step lib) m evs)"
  by (induction evs arbitrary: m) (simp_all add: priority_ok_step)

lemma priority_ok_run: "priority_ok (modal_run lib evs)"
  unfolding modal_run_def by (rule priority_ok_foldl) (simp add: priority_ok_def initialModal_def)

lemma handleSave_priority:
  "OnSave saved \<in> set (handleSave lib onSave m) \<Longrightarrow>
   \<exists>t. prop_task m = Some t \<and> t_priority saved = Some (st_priority m)"
proof (cases "prop_task m")
  case None
  assume "OnSave saved \<in> set (handleSave lib onSave m)"
  with None show ?thesis by (simp add: handleSave_def)
next
  case (Some t)
  assume "OnSave saved \<in> set (handleSave lib onSave m)"
  with Some show ?thesis
    by (auto simp: handleSave_def Let_def split: option.splits if_splits sum.splits)
qed

text \<open>
  C4 (as amended). For every sequence of events of the modal and every task saved through
  it, the priority of the object passed to \<^verbatim>\<open>onSave\<close> is one of 'low', 'medium', 'high',
  'urgent' or it is the non-empty priority string that the incoming task carries,
  unchanged. It is one of the four whenever the incoming task's priority is absent,
  \<^verbatim>\<open>null\<close>, empty or already one of the four.
\<close>

theorem C4_saved_priority:
  "OnSave saved \<in> set (handleSave lib onSave (modal_run lib evs)) \<longrightarrow>
   (\<exists>t p. prop_task (modal_run lib evs) = Some t \<and> t_priority saved = Some p \<and>
      (p \<in> {''low'', ''medium'', ''high'', ''urgent''} \<or> (t_priority t = Some p \<and> p \<noteq> [])) \<and>
      (t_priority t \<in> {None, Some [], Some ''low'', Some ''medium'', Some ''high'', Some ''urgent''}
         \<longrightarrow> p \<in> {''low'', ''medium'', ''high'', ''urgent''}))"
proof
  assume "OnSave saved \<in> set (handleSave lib onSave (modal_run lib evs))"
  then obtain t where t: "prop_task (modal_run lib evs) = Some t"
    "t_priority saved = Some (st_priority (modal_run lib evs))"
    using handleSave_priority by blast
  with priority_ok_run [of lib evs]
  have "st_priority (modal_run lib evs) \<in> {''low'', ''medium'', ''high'', ''urgent''} \<or>
        (t_priority t = Some (st_priority (modal_run lib evs)) \<and> st_priority (modal_run lib evs) \<noteq> [])"
    by (simp add: priority_ok_def)
  with t show "\<exists>t p. prop_task (modal_run lib evs) = Some t \<and> t_priority saved = Some p \<and>
      (p \<in> {''low'', ''medium'', ''high'', ''urgent''} \<or> (t_priority t = Some p \<and> p \<noteq> [])) \<and>
      (t_priority t \<in> {None, Some [], Some ''low'', Some ''medium'', Some ''high'', Some ''urgent''}
         \<longrightarrow> p \<in> {''low'', ''medium'', ''high'', ''urgent''})"
    by (intro exI [of _ t] exI [of _ "st_priority (modal_run lib evs)"]) auto
qed

lemma modal_run_critical:
  "modal_run demo_modal_runtime [SetTask (Some task_critical)] =
     \<lparr>prop_task = Some task_critical, st_title = ''Essay'', st_description = [],
      st_type = ''homework'', st_priority = ''critical'', st_dueDate = None,
      st_estimatedDuration = []\<rparr>"
  by (simp add: modal_run_def initialModal_def useEffect_task_def or_default_def task_critical_def)

lemma demo_trim_Essay:
  "String_trim demo_modal_runtime ''Essay'' = ''Essay'' \<and> String_trim demo_modal_runtime [] = []"
  by (simp add: demo_modal_runtime_def)

lemma handleSave_critical:
  "handleSave demo_modal_runtime onSave_ok (modal_run demo_modal_runtime [SetTask (Some task_critical)]) =
     [SetLoading True, OnSave task_critical, OnClose, SetLoading False]"
  unfolding modal_run_critical
  by (simp add: handleSave_def demo_trim_Essay onSave_ok_def task_critical_def)

theorem C4_counterexample:
  "t_priority task_critical = Some ''critical'' \<and>
   OnSave task_critical \<in> set (handleSave demo_modal_runtime onSave_ok
     (modal_run demo_modal_runtime [SetTask (Some task_critical)])) \<and>
   ''critical'' \<notin> {''low'', ''medium'', ''high'', ''urgent''}"
  unfolding handleSave_critical by (simp add: task_critical_def)

lemma modal_run_no_priority:
  "modal_run demo_modal_runtime [SetTask (Some task_no_priority), PressPriority 3] =
     \<lparr>prop_task = Some task_no_priority, st_title = ''Lab report'', st_description = [],
      st_type = ''homework'', st_priority = ''urgent'', st_dueDate = None,
      st_estimatedDuration = []\<rparr>"
  by (simp add: modal_run_def initialModal_def useEffect_task_def or_default_def
      task_no_priority_def priorities_def)

lemma demo_trim_Lab:
  "String_trim demo_modal_runtime ''Lab report'' = ''Lab report'' \<and>
   String_trim demo_modal_runtime [] = []"
  by (simp add: demo_modal_runtime_def)

lemma handleSave_no_priority:
  "handleSave demo_modal_runtime onSave_ok
     (modal_run demo_modal_runtime [SetTask (Some task_no_priority), PressPriority 3]) =
     [SetLoading True, OnSave (task_no_priority\<lparr>t_priority := Some ''urgent''\<rparr>), OnClose,
      SetLoading False]"
  unfolding modal_run_no_priority
  by (simp add: handleSave_def demo_trim_Lab onSave_ok_def task_no_priority_def)

theorem C4_witness:
  "OnSave (task_no_priority\<lparr>t_priority := Some ''urgent''\<rparr>) \<in> set (handleSave demo_modal_runtime onSave_ok
     (modal_run demo_modal_runtime [SetTask (Some task_no_priority), PressPriority 3])) \<and>
   t_priority task_no_priority = None \<and>
   t_priority (task_no_priority\<lparr>t_priority := Some ''urgent''\<rparr>) = Some ''urgent''"
  using C4_saved_priority [of "task_no_priority\<lparr>t_priority := Some ''urgent''\<rparr>"
      demo_modal_runtime onSave_ok "[SetTask (Some task_no_priority), PressPriority 3]"]
  unfolding handleSave_no_priority by (simp add: task_no_priority_def)

subsection \<open>Errors of the network calls\<close>

lemma io_bind_fst:
  "fst (io_bind m k) = (case snd m of Inl e \<Rightarrow> fst m | Inr v \<Rightarrow> fst m @ fst (k v))"
  by (cases m; cases "snd m") (auto simp: io_bind_def split: prod.splits)

lemma io_bind_snd:
  "snd (io_bind m k) = (case snd m of Inl e \<Rightarrow> Inl e | Inr v \<Rightarrow> snd (k v))"
  by (cases m; cases "snd m") (auto simp: io_bind_def split: prod.splits)

lemma io_then_fst:
  "fst (io_then m n) = (case snd m of Inl e \<Rightarrow> fst m | Inr v \<Rightarrow> fst m @ fst n)"
  by (simp add: io_then_def io_bind_fst)

lemma io_then_snd:
  "snd (io_then m n) = (case snd m of Inl e \<Rightarrow> Inl e | Inr v \<Rightarrow> snd n)"
  by (simp add: io_then_def io_bind_snd)

lemma io_try_catch_fst:
  "fst (io_try_catch m h) = (case snd m of Inl e \<Rightarrow> fst m @ fst (h e) | Inr v \<Rightarrow> fst m)"
  by (cases m; cases "snd m") (auto simp: io_try_catch_def split: prod.splits)

lemma io_try_catch_snd:
  "snd (io_try_catch m h) = (case snd m of Inl e \<Rightarrow> snd (h e) | Inr v \<Rightarrow> Inr v)"
  by (cases m; cases "snd m") (auto simp: io_try_catch_def split: prod.splits)

lemma io_finally_fst: "fst (io_finally m f) = fst m @ fst f"
  by (cases m; cases f; cases "snd f") (auto simp: io_finally_def)

lemma io_finally_snd:
  "snd (io_finally m f) = (case snd f of Inl e \<Rightarrow> Inl e | Inr v \<Rightarrow> snd m)"
  by (cases m; cases f; cases "snd f") (auto simp: io_finally_def)

lemma io_basic:
  "fst (io_emit ef) = [ef]" "snd (io_emit ef) = Inr ()"
  "fst (io_return v) = []" "snd (io_return v) = Inr v"
  "fst (io_throw e) = []" "snd (io_throw e) = Inl e"
  "fst (io_await r) = []" "snd (io_await r) = r"
  "fst (io_spawn m) = fst m" "snd (io_spawn m) = Inr ()"
  "fst (io_fetch env req) = [Fetch req]" "snd (io_fetch env req) = env_fetch env req"
  by (simp_all add: io_emit_def io_return_def io_throw_def io_await_def io_spawn_def io_fetch_def)

lemmas io_simps = io_bind_fst io_bind_snd io_then_fst io_then_snd io_try_catch_fst
  io_try_catch_snd io_finally_fst io_finally_snd io_basic

lemma requests_simps:
  "requests [] = []"
  "requests (es @ es') = requests es @ requests es'"
  "requests (Fetch r # es) = r # requests es"
  "requests (Alert_alert t msg # es) = requests es"
  "requests (Console_error t e # es) = requests es"
  "requests (SetIcsLoading b # es) = requests es"
  "requests (SetIcsUrl s # es) = requests es"
  "requests (SetPdfLoading b # es) = requests es"
  "requests (SetError eo # es) = requests es"
  "requests (SetCourses j # es) = requests es"
  "requests (SetCoursesLoading b # es) = requests es"
  "requests (SetRefreshing b # es) = requests es"
  "requests (SetSaving b # es) = requests es"
  "requests (SetModalVisible b # es) = requests es"
  "requests (SetNewCourseName s # es) = requests es"
  by (simp_all add: requests_def)

lemma handleIcsSync_try_requests:
  "requests (fst (handleIcsSync_try env icsUrl)) =
     (case getAuthHeaders (env_session env) of
        Inl e \<Rightarrow> []
      | Inr headers \<Rightarrow>
          [\<lparr>req_method = ''POST'', req_url = API_BASE_URL @ ''/ics/sync'',
            req_headers = headers(''Content-Type'' \<mapsto> ''application/json''),
            req_body = JsonBody (JObj [(''ics_url'', JStr icsUrl)])\<rparr>])"
  by (simp add: handleIcsSync_try_def io_simps requests_simps split: sum.splits)

lemma handleIcsSync_requests:
  "requests (fst (handleIcsSync env icsUrl)) =
     (if env_trim env icsUrl = [] then [] else requests (fst (handleIcsSync_try env icsUrl)))"
  by (simp add: handleIcsSync_def io_simps requests_simps split: sum.splits)

lemma handleIcsSync_returns: "snd (handleIcsSync env icsUrl) = Inr ()"
  by (simp add: handleIcsSync_def io_simps split: sum.splits)

lemma handleIcsSync_alert:
  "env_trim env icsUrl \<noteq> [] \<Longrightarrow> snd (handleIcsSync_try env icsUrl) = Inl e \<Longrightarrow>
   Alert_alert ''Erreur'' (JStr ''Impossible de se connecter au serveur'')
     \<in> set (fst (handleIcsSync env icsUrl))"
  by (simp add: handleIcsSync_def io_simps)

lemma handlePdfUpload_try_requests:
  "requests (fst (handlePdfUpload_try env)) =
     (case env_pick env of
        Inl e \<Rightarrow> []
      | Inr result \<Rightarrow>
          if canceled result then []
          else (case assets result of
                  [] \<Rightarrow> []
                | asset # _ \<Rightarrow>
                    (case getAuthHeaders (env_session env) of
                       Inl e \<Rightarrow> []
                     | Inr headers \<Rightarrow>
                         [\<lparr>req_method = ''POST'', req_url = API_BASE_URL @ ''/extract-deadlines'',
                           req_headers = headers,
                           req_body = FormData ''file'' (asset_uri asset) (asset_name asset)
                                        ''application/pdf''\<rparr>])))"
  by (simp add: handlePdfUpload_try_def io_simps requests_simps split: sum.splits list.splits)

lemma handlePdfUpload_requests:
  "requests (fst (handlePdfUpload env)) = requests (fst (handlePdfUpload_try env))"
  by (simp add: handlePdfUpload_def io_simps requests_simps split: sum.splits)

lemma handlePdfUpload_returns: "snd (handlePdfUpload env) = Inr ()"
  by (simp add: handlePdfUpload_def io_simps split: sum.splits)

lemma handlePdfUpload_alert:
  "snd (handlePdfUpload_try env) = Inl e \<Longrightarrow>
   Alert_alert ''Erreur'' (JStr ''Impossible d'importer le PDF'') \<in> set (fst (handlePdfUpload env))"
  by (simp add: handlePdfUpload_def io_simps)

lemma load_try_requests:
  "requests (fst (load_try env)) =
     (case getAuthHeaders (env_session env) of
        Inl e \<Rightarrow> []
      | Inr headers \<Rightarrow>
          [\<lparr>req_method = ''GET'', req_url = API_BASE_URL @ ''/courses'',
            req_headers = headers, req_body = NoBody\<rparr>])"
  by (simp add: load_try_def io_simps requests_simps split: sum.splits)

lemma load_requests: "requests (fst (load env)) = requests (fst (load_try env))"
  by (simp add: load_def io_simps requests_simps split: sum.splits)

lemma load_returns: "snd (load env) = Inr ()"
  by (simp add: load_def io_simps split: sum.splits)

lemma load_error:
  "snd (load_try env) = Inl e \<Longrightarrow>
   SetError (Some (message_or e ''Failed to load courses'')) \<in> set (fst (load env))"
  by (simp add: load_def io_simps)

lemma saveCourse_try_requests:
  "requests (fst (saveCourse_try env env' n)) =
     (case getAuthHeaders (env_session env) of
        Inl e \<Rightarrow> []
      | Inr headers \<Rightarrow>
          \<lparr>req_method = ''POST'', req_url = API_BASE_URL @ ''/courses'',
           req_headers = headers(''Content-Type'' \<mapsto> ''application/json''),
           req_body = JsonBody (JObj [(''name'', JStr (env_trim env n))])\<rparr> #
          (case env_fetch env
                  \<lparr>req_method = ''POST'', req_url = API_BASE_URL @ ''/courses'',
                   req_headers = headers(''Content-Type'' \<mapsto> ''application/json''),
                   req_body = JsonBody (JObj [(''name'', JStr (env_trim env n))])\<rparr> of
             Inl e \<Rightarrow> []
           | Inr res \<Rightarrow>
               if \<not> res_ok res then []
               else (case res_json res of
                       Inl e \<Rightarrow> []
                     | Inr _ \<Rightarrow> requests (fst (load env')))))"
  by (simp add: saveCourse_try_def io_simps requests_simps split: sum.splits)

lemma saveCourse_requests:
  "requests (fst (saveCourse env env' n)) =
     (if env_trim env n = [] then [] else requests (fst (saveCourse_try env env' n)))"
  by (simp add: saveCourse_def io_simps requests_simps split: sum.splits)

lemma saveCourse_returns: "snd (saveCourse env env' n) = Inr ()"
  by (simp add: saveCourse_def io_simps split: sum.splits)

lemma saveCourse_error:
  "env_trim env n \<noteq> [] \<Longrightarrow> snd (saveCourse_try env env' n) = Inl e \<Longrightarrow>
   SetError (Some (message_or e ''Erreur lors de la creation'')) \<in> set (fst (saveCourse env env' n))"
  by (simp add: saveCourse_def io_simps)

lemma saveCourse_requests_cases:
  "map (\<lambda>r. (req_method r, req_url r)) (requests (fst (saveCourse env env' n))) \<in>
     {[], [(''POST'', API_BASE_URL @ ''/courses'')],
      [(''POST'', API_BASE_URL @ ''/courses''), (''GET'', API_BASE_URL @ ''/courses'')]}"
  by (simp add: saveCourse_requests saveCourse_try_requests load_requests load_try_requests
      split: sum.splits)

lemma try_bodies_throw:
  assumes "getAuthHeaders (env_session env) = Inl e \<or>
           (\<exists>h. getAuthHeaders (env_session env) = Inr h) \<and> (\<forall>req. env_fetch env req = Inl e)"
  shows "snd (handleIcsSync_try env icsUrl) = Inl e"
    and "snd (load_try env) = Inl e"
    and "snd (saveCourse_try env env' n) = Inl e"
    and "env_pick env = Inr r \<Longrightarrow> \<not> canceled r \<Longrightarrow> assets r \<noteq> [] \<Longrightarrow>
         snd (handlePdfUpload_try env) = Inl e"
  using assms
  by (auto simp: handleIcsSync_try_def load_try_def saveCourse_try_def handlePdfUpload_try_def
      io_simps split: sum.splits list.splits)

text \<open>
  C7. The ICS-sync handler, the PDF-upload handler and the operations \<open>load\<close> and
  \<open>saveCourse\<close> of the courses screen always return to their caller, whatever the session
  lookup, the network and the parsing of the response do. Each of the first three issues
  at most one HTTP request; \<open>saveCourse\<close> issues at most its POST to \<open>/courses\<close> followed by
  the one GET of \<open>/courses\<close> of the \<open>load\<close> it starts, so no request is repeated. When the
  \<open>try\<close> block of a handler throws, as it does when the session lookup throws or the
  request is rejected, the handler shows the alert of its \<open>catch\<close> block or stores the
  error message with \<open>setError\<close>.
\<close>

theorem C7_errors_caught_no_retry:
  "snd (handleIcsSync env icsUrl) = Inr () \<and>
   snd (handlePdfUpload env) = Inr () \<and>
   snd (load env) = Inr () \<and>
   snd (saveCourse env env' n) = Inr () \<and>
   length (requests (fst (handleIcsSync env icsUrl))) \<le> 1 \<and>
   length (requests (fst (handlePdfUpload env))) \<le> 1 \<and>
   length (requests (fst (load env))) \<le> 1 \<and>
   map (\<lambda>r. (req_method r, req_url r)) (requests (fst (saveCourse env env' n))) \<in>
     {[], [(''POST'', API_BASE_URL @ ''/courses'')],
      [(''POST'', API_BASE_URL @ ''/courses''), (''GET'', API_BASE_URL @ ''/courses'')]} \<and>
   (env_trim env icsUrl \<noteq> [] \<and> snd (handleIcsSync_try env icsUrl) = Inl e \<longrightarrow>
      Alert_alert ''Erreur'' (JStr ''Impossible de se connecter au serveur'')
        \<in> set (fst (handleIcsSync env icsUrl))) \<and>
   (snd (handlePdfUpload_try env) = Inl e \<longrightarrow>
      Alert_alert ''Erreur'' (JStr ''Impossible d'importer le PDF'')
        \<in> set (fst (handlePdfUpload env))) \<and>
   (snd (load_try env) = Inl e \<longrightarrow>
      SetError (Some (message_or e ''Failed to load courses'')) \<in> set (fst (load env))) \<and>
   (env_trim env n \<noteq> [] \<and> snd (saveCourse_try env env' n) = Inl e \<longrightarrow>
      SetError (Some (message_or e ''Erreur lors de la creation''))
        \<in> set (fst (saveCourse env env' n))) \<and>
   (getAuthHeaders (env_session env) = Inl e \<or>
    (\<exists>h. getAuthHeaders (env_session env) = Inr h) \<and> (\<forall>req. env_fetch env req = Inl e) \<longrightarrow>
      snd (handleIcsSync_try env icsUrl) = Inl e \<and>
      snd (load_try env) = Inl e \<and>
      snd (saveCourse_try env env' n) = Inl e \<and>
      (\<forall>r. env_pick env = Inr r \<and> \<not> canceled r \<and> assets r \<noteq> [] \<longrightarrow>
           snd (handlePdfUpload_try env) = Inl e))"
proof -
  have 1: "length (requests (fst (handleIcsSync env icsUrl))) \<le> 1"
    by (simp add: handleIcsSync_requests handleIcsSync_try_requests split: sum.splits)
  have 2: "length (requests (fst (handlePdfUpload env))) \<le> 1"
    by (simp add: handlePdfUpload_requests handlePdfUpload_try_requests
        split: sum.splits list.splits)
  have 3: "length (requests (fst (load env))) \<le> 1"
    by (simp add: load_requests load_try_requests split: sum.splits)
  show ?thesis
    using 1 2 3 handleIcsSync_returns [of env icsUrl] handlePdfUpload_returns [of env]
      load_returns [of env] saveCourse_returns [of env env' n]
      saveCourse_requests_cases [of env env' n]
      handleIcsSync_alert [of env icsUrl e] handlePdfUpload_alert [of env e]
      load_error [of env e] saveCourse_error [of env n env' e]
      try_bodies_throw [of env e]
    by blast
qed

lemma env_offline_headers:
  "getAuthHeaders (env_session env_offline) = Inr [''Authorization'' \<mapsto> ''Bearer abc'']"
  by (simp add: env_offline_def getAuthHeaders_def)

theorem C7_witness:
  "env_trim env_offline ''https://example.org/cal.ics'' \<noteq> [] \<and>
   snd (handleIcsSync_try env_offline ''https://example.org/cal.ics'') =
     Inl (Error ''Network request failed'') \<and>
   snd (load_try env_offline) = Inl (Error ''Network request failed'') \<and>
   snd (handleIcsSync env_offline ''https://example.org/cal.ics'') = Inr () \<and>
   Alert_alert ''Erreur'' (JStr ''Impossible de se connecter au serveur'')
     \<in> set (fst (handleIcsSync env_offline ''https://example.org/cal.ics'')) \<and>
   SetError (Some ''Network request failed'') \<in> set (fst (load env_offline)) \<and>
   length (requests (fst (load env_offline))) = 1"
proof -
  have f: "\<forall>req. env_fetch env_offline req = Inl (Error ''Network request failed'')"
    by (simp add: env_offline_def)
  have t: "env_trim env_offline ''https://example.org/cal.ics'' \<noteq> []"
    by (simp add: env_offline_def)
  have r: "length (requests (fst (load env_offline))) = 1"
    by (simp add: load_requests load_try_requests env_offline_headers)
  show ?thesis
    using C7_errors_caught_no_retry [of env_offline "''https://example.org/cal.ics''"
        env_offline "''Algebra''" "Error ''Network request failed''"]
      f t r env_offline_headers
    by (simp add: message_or_def)
qed

subsection \<open>Request URLs and authorization headers\<close>

lemma API_BASE_URL_suffix: "suffix ''/v1'' API_BASE_URL"
  by (simp add: API_BASE_URL_def suffix_to_prefix)

lemma getAuthHeaders_cases:
  "getAuthHeaders (Inr None) = Inr Map.empty"
  "access_token s = None \<or> access_token s = Some [] \<Longrightarrow>
   getAuthHeaders (Inr (Some s)) = Inr Map.empty"
  "access_token s = Some tok \<Longrightarrow> tok \<noteq> [] \<Longrightarrow>
   getAuthHeaders (Inr (Some s)) = Inr [''Authorization'' \<mapsto> ''Bearer '' @ tok]"
  "getAuthHeaders (Inl e) = Inl e"
  by (auto simp: getAuthHeaders_def)

lemma ics_pdf_load_request:
  assumes "r \<in> set (requests (fst (handleIcsSync env icsUrl))) \<union>
               set (requests (fst (handlePdfUpload env))) \<union>
               set (requests (fst (load env)))"
  shows "\<exists>h. getAuthHeaders (env_session env) = Inr h \<and>
             req_headers r ''Authorization'' = h ''Authorization'' \<and>
             req_url r \<in> {API_BASE_URL @ ''/ics/sync'', API_BASE_URL @ ''/extract-deadlines'',
                            API_BASE_URL @ ''/courses''}"
proof (cases "getAuthHeaders (env_session env)")
  case (Inl e)
  with assms show ?thesis
    by (auto simp: handleIcsSync_requests handleIcsSync_try_requests handlePdfUpload_requests
        handlePdfUpload_try_requests load_requests load_try_requests
        split: sum.splits if_splits list.splits)
next
  case (Inr h)
  with assms show ?thesis
    by (auto simp: handleIcsSync_requests handleIcsSync_try_requests handlePdfUpload_requests
        handlePdfUpload_try_requests load_requests load_try_requests
        split: sum.splits if_splits list.splits)
qed

lemma saveCourse_try_requests_subset:
  "set (requests (fst (saveCourse_try env env' n))) \<subseteq>
     (case getAuthHeaders (env_session env) of
        Inl e \<Rightarrow> {}
      | Inr headers \<Rightarrow>
          {\<lparr>req_method = ''POST'', req_url = API_BASE_URL @ ''/courses'',
            req_headers = headers(''Content-Type'' \<mapsto> ''application/json''),
            req_body = JsonBody (JObj [(''name'', JStr (env_trim env n))])\<rparr>}) \<union>
     set (requests (fst (load env')))"
proof (cases "getAuthHeaders (env_session env)")
  case (Inl e)
  then show ?thesis by (simp add: saveCourse_try_requests)
next
  case h: (Inr headers)
  show ?thesis
  proof (cases "env_fetch env
                  \<lparr>req_method = ''POST'', req_url = API_BASE_URL @ ''/courses'',
                   req_headers = headers(''Content-Type'' \<mapsto> ''application/json''),
                   req_body = JsonBody (JObj [(''name'', JStr (env_trim env n))])\<rparr>")
    case (Inl e)
    with h show ?thesis by (simp add: saveCourse_try_requests)
  next
    case f: (Inr res)
    show ?thesis
      by (cases "res_json res") (use h f in \<open>auto simp: saveCourse_try_requests\<close>)
  qed
qed

lemma saveCourse_request:
  assumes "r \<in> set (requests (fst (saveCourse env env n)))"
  shows "\<exists>h. getAuthHeaders (env_session env) = Inr h \<and>
             req_headers r ''Authorization'' = h ''Authorization'' \<and>
             req_url r = API_BASE_URL @ ''/courses''"
proof -
  from assms have "r \<in> set (requests (fst (saveCourse_try env env n)))"
    by (simp add: saveCourse_requests split: if_splits)
  with saveCourse_try_requests_subset [of env env n]
  consider (post) "r \<in> (case getAuthHeaders (env_session env) of
        Inl e \<Rightarrow> {}
      | Inr headers \<Rightarrow>
          {\<lparr>req_method = ''POST'', req_url = API_BASE_URL @ ''/courses'',
            req_headers = headers(''Content-Type'' \<mapsto> ''application/json''),
            req_body = JsonBody (JObj [(''name'', JStr (env_trim env n))])\<rparr>})"
    | (get) "r \<in> set (requests (fst (load env)))"
    by blast
  then show ?thesis
  proof cases
    case post
    then show ?thesis by (cases "getAuthHeaders (env_session env)") auto
  next
    case get
    then show ?thesis
      by (cases "getAuthHeaders (env_session env)")
         (auto simp: load_requests load_try_requests)
  qed
qed

lemma handler_requests_urls_headers:
  assumes "r \<in> set (requests (fst (handleIcsSync env icsUrl))) \<union>
               set (requests (fst (handlePdfUpload env))) \<union>
               set (requests (fst (load env))) \<union>
               set (requests (fst (saveCourse env env n)))"
  shows "req_url r \<in> {API_BASE_URL @ ''/ics/sync'', API_BASE_URL @ ''/extract-deadlines'',
                        API_BASE_URL @ ''/courses''}"
    and "env_session env = Inr (Some s) \<Longrightarrow> access_token s = Some tok \<Longrightarrow> tok \<noteq> [] \<Longrightarrow>
         req_headers r ''Authorization'' = Some (''Bearer '' @ tok)"
proof -
  from assms obtain h where h: "getAuthHeaders (env_session env) = Inr h"
    "req_headers r ''Authorization'' = h ''Authorization''"
    "req_url r \<in> {API_BASE_URL @ ''/ics/sync'', API_BASE_URL @ ''/extract-deadlines'',
                    API_BASE_URL @ ''/courses''}"
    using ics_pdf_load_request [of r env icsUrl] saveCourse_request [of r env n] by auto
  from h(3) show "req_url r \<in> {API_BASE_URL @ ''/ics/sync'', API_BASE_URL @ ''/extract-deadlines'',
                        API_BASE_URL @ ''/courses''}" .
  assume "env_session env = Inr (Some s)" "access_token s = Some tok" "tok \<noteq> []"
  with h(1) have "h = [''Authorization'' \<mapsto> ''Bearer '' @ tok]"
    by (simp add: getAuthHeaders_cases)
  with h(2) show "req_headers r ''Authorization'' = Some (''Bearer '' @ tok)" by simp
qed

lemma deleteCourse_requests:
  "requests (fst (deleteCourse env env' c)) =
     \<lparr>req_method = ''DELETE'', req_url = API_BASE_URL @ ''/courses/'' @ course_id c,
      req_headers = Map.empty, req_body = NoBody\<rparr> #
     (case env_fetch env
             \<lparr>req_method = ''DELETE'', req_url = API_BASE_URL @ ''/courses/'' @ course_id c,
              req_headers = Map.empty, req_body = NoBody\<rparr> of
        Inl e \<Rightarrow> []
      | Inr res \<Rightarrow> if res_ok res then requests (fst (load env')) else [])"
  by (simp add: deleteCourse_def io_simps requests_simps split: sum.splits)

lemma deleteCourse_New_onPress_requests:
  "requests (fst (deleteCourse_New_onPress env env' c)) =
     (case getAuthHeaders (env_session env) of
        Inl e \<Rightarrow> []
      | Inr headers \<Rightarrow>
          \<lparr>req_method = ''DELETE'', req_url = API_BASE_URL @ ''/courses/'' @ course_id c,
           req_headers = headers, req_body = NoBody\<rparr> #
          (case env_fetch env
                  \<lparr>req_method = ''DELETE'', req_url = API_BASE_URL @ ''/courses/'' @ course_id c,
                   req_headers = headers, req_body = NoBody\<rparr> of
             Inl e \<Rightarrow> []
           | Inr res \<Rightarrow> if res_ok res then requests (fst (load env')) else []))"
  by (simp add: deleteCourse_New_onPress_def io_simps requests_simps split: sum.splits)

lemma env_online_headers:
  "getAuthHeaders (env_session env_online) = Inr [''Authorization'' \<mapsto> ''Bearer abc'']"
  by (simp add: env_online_def getAuthHeaders_def)

lemma env_online_fetch:
  "env_fetch env_online r =
     Inr \<lparr>res_ok = True, res_status = 200, res_json = Inr (JObj [(''courses'', JArr [])])\<rparr>"
  by (simp add: env_online_def)

lemma load_online_requests:
  "requests (fst (load env_online)) =
     [\<lparr>req_method = ''GET'', req_url = API_BASE_URL @ ''/courses'',
       req_headers = [''Authorization'' \<mapsto> ''Bearer abc''], req_body = NoBody\<rparr>]"
  by (simp add: load_requests load_try_requests env_online_headers)

text \<open>
  C8 (the code departs from the claim). The base URL ends in '/v1' and \<open>getAuthHeaders\<close>
  returns exactly the record with the entry \<open>Authorization: 'Bearer ' + access_token\<close> for
  a session with an access token, as the claim says, and the requests that it lets one
  expect to carry this header do so where the handler asks for it: with a session whose
  access token is 'abc', \<open>load\<close> sends its GET with \<open>Authorization: Bearer abc\<close>, and so does
  the confirmed deletion of the newer courses screen with its DELETE. But \<open>deleteCourse\<close>
  of the courses screen, called for the course with id '7' under the same session, sends
  \<open>DELETE /v1/courses/7\<close> with no header at all, before the \<open>load\<close> that it awaits sends
  its authorized GET.
\<close>

theorem C8_deleteCourse_without_bearer_header:
  "suffix ''/v1'' API_BASE_URL \<and>
   getAuthHeaders (env_session env_online) = Inr [''Authorization'' \<mapsto> ''Bearer abc''] \<and>
   requests (fst (deleteCourse env_online env_online course_7)) =
     [\<lparr>req_method = ''DELETE'', req_url = API_BASE_URL @ ''/courses/7'',
       req_headers = Map.empty, req_body = NoBody\<rparr>,
      \<lparr>req_method = ''GET'', req_url = API_BASE_URL @ ''/courses'',
       req_headers = [''Authorization'' \<mapsto> ''Bearer abc''], req_body = NoBody\<rparr>] \<and>
   requests (fst (deleteCourse_New_onPress env_online env_online course_7)) =
     [\<lparr>req_method = ''DELETE'', req_url = API_BASE_URL @ ''/courses/7'',
       req_headers = [''Authorization'' \<mapsto> ''Bearer abc''], req_body = NoBody\<rparr>,
      \<lparr>req_method = ''GET'', req_url = API_BASE_URL @ ''/courses'',
       req_headers = [''Authorization'' \<mapsto> ''Bearer abc''], req_body = NoBody\<rparr>]"
  using API_BASE_URL_suffix env_online_headers
  by (simp add: deleteCourse_requests deleteCourse_New_onPress_requests env_online_fetch
      load_online_requests course_7_def)

end
